theory Spec2Isabelle
  imports Complex_Main "HOL-Library.Word"
begin

unbundle bit_operations_syntax

section \<open>LATCH.h: the LATCH binary descriptor\<close>

text \<open>
  A shallow embedding of \<^verbatim>\<open>LATCH.h\<close>: the border filter of \<^verbatim>\<open>LATCH\<close>, the worker
  \<^verbatim>\<open>_LATCH\<close> with its SSE intrinsics written lane by lane, and the dispatch of
  \<^verbatim>\<open>LATCH<multithread>\<close> over \<^verbatim>\<open>std::async\<close>.
\<close>

subsection \<open>Single-precision values\<close>

text \<open>
  A \<^verbatim>\<open>float\<close> is either a NaN or the real number it denotes. Every finite
  single-precision value is a real, so a statement about all \<open>Fin r\<close> covers all of them.
  Infinities are left out: in the comparisons of the border filter they behave as a finite
  value beyond every bound. Comparisons follow IEEE 754: any comparison with a NaN is false.
\<close>

datatype float = NaN | Fin real

fun float_le :: "float \<Rightarrow> float \<Rightarrow> bool" where
  "float_le (Fin a) (Fin b) = (a \<le> b)"
| "float_le _ _ = False"

fun float_ge :: "float \<Rightarrow> float \<Rightarrow> bool" where
  "float_ge (Fin a) (Fin b) = (a \<ge> b)"
| "float_ge _ _ = False"

text \<open>
  The conversion \<^verbatim>\<open>int\<close> to \<^verbatim>\<open>float\<close> that C++ inserts in \<^verbatim>\<open>kp.x <= 36\<close> and
  \<^verbatim>\<open>kp.x >= width - 36\<close>: the nearest value with a 24-bit significand, ties to even (an
  \<^verbatim>\<open>int\<close> has 32 bits, so the result is finite). \<open>excess_bits a\<close> is the number of low bits
  of \<open>a\<close> that do not fit.
\<close>

function excess_bits :: "nat \<Rightarrow> nat" where
  "excess_bits a = (if a < 2 ^ 24 then 0 else Suc (excess_bits (a div 2)))"
  by pat_completeness auto
termination
  by (relation "measure (\<lambda>a. a)") auto

declare excess_bits.simps [simp del]

definition round_sig24 :: "int \<Rightarrow> int" where
  "round_sig24 n =
     (let a = \<bar>n\<bar>; e = excess_bits (nat a); q = a div 2 ^ e; r = a mod 2 ^ e
      in sgn n * (if 2 * r > 2 ^ e \<or> (2 * r = 2 ^ e \<and> odd q) then q + 1 else q) * 2 ^ e)"

definition float_of_int :: "int \<Rightarrow> float" where
  "float_of_int n = Fin (of_int (round_sig24 n))"

subsection \<open>Keypoints and the border filter\<close>

text \<open>\<^verbatim>\<open>struct KeyPoint { float x, y, scale; float angle; }\<close>, the angle in radians.\<close>

record KeyPoint =
  pt_x :: float
  pt_y :: float
  pt_scale :: float
  pt_angle :: float

text \<open>
  The predicate of the lambda given to \<^verbatim>\<open>std::remove_if\<close>. \<^verbatim>\<open>width - 36\<close> and
  \<^verbatim>\<open>height - 36\<close> are \<^verbatim>\<open>int\<close> subtractions, which cannot overflow for a width and height
  that are not negative; the differences are then converted to \<^verbatim>\<open>float\<close>.
\<close>

definition border :: "int \<Rightarrow> int \<Rightarrow> KeyPoint \<Rightarrow> bool" where
  "border width height kp \<longleftrightarrow>
     float_le (pt_x kp) (float_of_int 36) \<or> float_le (pt_y kp) (float_of_int 36) \<or>
     float_ge (pt_x kp) (float_of_int (width - 36)) \<or>
     float_ge (pt_y kp) (float_of_int (height - 36))"

text \<open>
  \<^verbatim>\<open>std::remove_if\<close> on a vector, as the standard library writes it: find the first
  element to remove, then move every later element that stays to the next free position.
  It returns the vector (its tail holds left-over values) and the new logical end.
\<close>

fun find_if :: "('a \<Rightarrow> bool) \<Rightarrow> 'a list \<Rightarrow> nat" where
  "find_if p [] = 0"
| "find_if p (a # as) = (if p a then 0 else Suc (find_if p as))"

function remove_loop :: "('a \<Rightarrow> bool) \<Rightarrow> 'a list \<Rightarrow> nat \<Rightarrow> nat \<Rightarrow> 'a list \<times> nat" where
  "remove_loop p v first i =
     (if i < length v
      then (if \<not> p (v ! i)
            then remove_loop p (v[first := v ! i]) (Suc first) (Suc i)
            else remove_loop p v first (Suc i))
      else (v, first))"
  by pat_completeness auto
termination
  by (relation "measure (\<lambda>(p, v, first, i). length v - i)") auto

declare remove_loop.simps [simp del]

definition remove_if :: "('a \<Rightarrow> bool) \<Rightarrow> 'a list \<Rightarrow> 'a list \<times> nat" where
  "remove_if p v =
     (let first = find_if p v
      in if first \<noteq> length v then remove_loop p v first (Suc first) else (v, first))"

text \<open>\<^verbatim>\<open>v.erase(first, v.end())\<close>.\<close>

definition erase_to_end :: "'a list \<Rightarrow> nat \<Rightarrow> 'a list" where
  "erase_to_end v first = take first v"

text \<open>Line 624: \<^verbatim>\<open>keypoints.erase(std::remove_if(..., border), keypoints.end())\<close>.\<close>

definition filter_keypoints :: "int \<Rightarrow> int \<Rightarrow> KeyPoint list \<Rightarrow> KeyPoint list" where
  "filter_keypoints width height keypoints =
     (let (v, first) = remove_if (border width height) keypoints in erase_to_end v first)"

subsection \<open>The triplet table\<close>

text \<open>
  \<^verbatim>\<open>constexpr float triplets[3073]\<close>: 512 triplets of six offsets each, stored as
  \<open>ax, bx, cx, ay, by, cy\<close>, and a final 0 that the last four-lane load reads. The table is
  written here in sixteen parts of 32 triplets; \<open>triplets_k\<close> starts at triplet \<open>k\<close>. Every
  entry is a small integer, which \<^verbatim>\<open>float\<close> represents exactly.
\<close>

definition triplets_0 :: "int list" where
  "triplets_0 = [
    -5, -16, -9, 1, 16, -21, -7, -10, -3, 16, -14, 9, 11, 7, 3, 6, 15, -11, -22, -12, -22, 2, 12, 21,
    17, 2, 14, -10, 10, -18, 22, -2, 23, -14, -20, 5, 4, 24, 4, 16, -11, -21, 13, 19, 23, -6, 19, -4,
    22, 1, -10, 7, -8, 6, -5, 19, -6, 18, 11, -16, 12, 24, 20, -9, 20, -20, -3, 5, 10, -14, -21, 19,
    -3, -17, -5, 9, -1, -19, 7, 22, 13, -2, -23, 20, 19, -1, 15, 12, -19, -9, -19, -2, -22, 2, -9, 24,
    -2, -11, -3, -21, -18, 7, 23, 4, 17, 8, 7, -19, 16, 10, 20, 18, -23, 4, -6, -1, 6, 22, -11, -14,
    -24, 15, -23, -15, -14, -11, 24, 18, 14, -13, -14, -19, -17, -11, -21, 10, -12, -17, 19, 3, -2, -4, 8, 19,
    -18, -8, -18, -3, -15, 5, -6, 1, -6, -13, 16, 23, -22, -4, -15, -8, -5, 20, 9, -6, 10, 13, -23, 15,
    20, 11, 9, 12, -24, 22, -19, -1, -20, -4, 5, 2, -24, 15, -19, 4, -16, -5, -23, -11, -16, 10, 5, 19]"

definition triplets_32 :: "int list" where
  "triplets_32 = [
    -3, -22, -7, 5, 23, -22, -15, -9, -21, 2, 21, 20, -18, 16, -12, 11, -10, 4, 2, 14, 6, -7, -13, 20,
    3, 23, 5, 15, -23, -9, 1, -1, -3, 8, -4, 7, -22, -1, 16, 16, 19, -12, 14, 9, 19, -12, 13, 12,
    21, -22, 15, 2, -17, 3, 0, 11, 8, 5, -22, 18, -15, 13, -18, 9, 3, -17, -12, 8, -21, 10, 5, -18,
    19, 0, -12, 17, 18, -7, -14, 1, -12, -20, -7, -2, 24, 3, -16, 15, -22, 7, -17, 24, -24, 13, -14, -24,
    -7, -4, -1, -23, 10, 20, -8, -1, -5, -13, 20, -22, 13, 16, 0, -22, 16, -14, -10, 0, -9, 12, -9, -16,
    20, -2, 19, 15, -19, -15, -19, 22, -14, 19, 23, -2, -24, 10, -8, 16, -3, -1, -22, 18, -23, -15, 23, 21,
    9, 9, 21, 10, -23, -24, -17, 12, -12, -19, -23, -8, 19, 0, -18, 17, -16, -19, -19, -7, -14, 21, 20, 3,
    20, 8, 17, -2, 0, -10, -15, 6, -21, 24, 2, -22, -18, 8, -24, 12, 19, -14, 16, -13, 24, -1, -16, -18]"

definition triplets_64 :: "int list" where
  "triplets_64 = [
    23, 4, 20, -1, -10, 22, 22, 2, 16, -14, -22, 11, -14, 24, -9, -19, -16, -6, 11, 0, -20, -5, 24, -12,
    17, -9, 18, 16, 1, -15, 15, -24, 24, -10, 16, 11, 5, -3, 4, 3, -16, -2, 9, -15, 7, 19, -18, -19,
    11, -5, 14, 6, 22, -10, -8, 17, -19, -3, 24, 17, 13, 24, 9, 16, -20, -4, 7, 16, 8, -6, 11, 1,
    3, 18, 20, 23, 15, -24, 22, 2, -12, 15, 18, -10, -15, 11, -13, 13, 9, 9, -10, 17, -13, -9, 13, -13,
    22, -11, 20, 15, 7, -9, 18, -11, 17, 0, 16, 11, 22, -19, 24, -18, -3, -15, 22, -5, 19, 20, 16, -23,
    21, 0, -17, 14, -8, 2, 9, 2, 7, 0, 3, 12, 7, -12, 13, 18, 8, -24, -5, -15, -22, -11, -10, 9,
    19, 20, 24, 24, 6, -11, -10, 2, -17, 6, -2, -21, 19, 21, 21, -17, 21, -13, -11, -20, -9, 3, -5, -8,
    -3, -7, -1, -20, 23, -9, -3, 22, -1, 21, -12, 3, -19, 2, -24, -4, -3, 17, -16, 2, -19, 10, 1, 20]"

definition triplets_96 :: "int list" where
  "triplets_96 = [
    -9, -20, -17, 21, -17, 22, -18, -9, -12, 7, 19, -5, 22, 8, 11, 6, -7, 22, -24, 5, -24, 10, -15, -20,
    10, -22, 9, 20, -4, -20, -24, 0, -23, 6, -13, -15, 22, -3, 19, -20, 24, 5, 10, -1, 8, -23, -9, -5,
    -9, 23, -22, -6, 0, 13, -9, 23, -17, -7, -13, -20, 20, -21, 22, 7, 15, -5, 24, -24, 12, 24, 22, -12,
    16, -18, 9, -13, 11, -6, -10, 2, 18, -9, 15, 18, -18, 1, -24, 3, 24, 20, -23, -22, -17, 6, -12, 7,
    -19, -18, -2, -18, 22, 13, -22, 4, -22, 24, 8, 2, 7, 10, 20, -12, 19, 21, -18, 3, -16, -7, 8, 5,
    -20, 4, -17, -14, -9, -8, -7, -20, -20, -6, 18, -3, 0, 4, 18, 4, -8, -8, -15, 1, -17, -18, -22, 10,
    8, 21, 24, 13, 17, -3, 14, 6, 17, 10, -24, -10, -22, 12, -18, 8, -8, 23, -13, 21, -15, -8, 18, 11,
    20, 7, 5, 17, 7, -24, -7, 1, 9, -12, 14, 17, 16, -24, 24, 11, -2, 21, 10, -15, 21, 9, 15, 16]"

definition triplets_128 :: "int list" where
  "triplets_128 = [
    -10, 14, -22, 3, -11, 8, 22, -22, 14, -13, 4, 3, -1, 23, -2, 21, -14, -17, 16, -7, 19, -7, -23, 6,
    21, -15, 6, -22, 6, -4, 11, -1, -10, 7, -21, -4, -10, -2, -13, -23, 23, 5, -21, 18, -8, -24, 11, 5,
    -18, 23, -21, -24, -16, 16, -8, 19, -23, 6, -13, 23, -24, -16, -1, -23, 13, -11, -23, 12, -24, -10, 1, 2,
    -14, 2, -20, -20, -11, 24, -1, 20, -6, -4, -22, -19, 12, 13, 15, 2, -16, 1, 11, -24, 24, 13, 10, 21,
    -10, 8, -13, -12, 10, 24, 23, -13, 16, 10, -14, 10, 0, -21, 0, 22, 20, 18, 24, -13, 18, 7, 7, 19,
    -10, -24, -13, -24, -20, -5, 19, 0, 21, -4, 21, 16, 0, -13, -2, -15, 24, 9, -12, -10, -6, 19, 6, -16,
    -10, -4, -14, 4, -22, -8, 24, -18, 20, -7, 24, -1, 18, -8, 23, 7, 3, -11, -20, -11, -5, -6, 17, -19,
    12, 1, 12, 0, -11, -16, 22, -2, -24, -1, -3, 22, 17, -7, 17, 17, 17, -12, -22, -17, -6, -6, 14, 11]"

definition triplets_160 :: "int list" where
  "triplets_160 = [
    -11, -4, -2, -13, -9, -18, -24, 12, -16, 16, -5, 13, -20, 15, -14, 23, -10, -16, 21, -18, 12, 13, 0, -12,
    -18, -20, -18, 14, -22, 12, -16, 3, -17, 21, -3, -15, 12, 15, 5, 15, -19, 4, 15, -16, 17, -8, 20, 23,
    -21, 7, -7, 19, -2, 1, -22, 21, -21, 13, 19, -10, 9, 21, 6, 0, -23, -24, -24, 4, -24, 13, 16, -13,
    -8, 15, -11, -18, 23, 23, 18, 2, 15, 10, 23, 6, -14, 22, -21, -14, 9, 17, 3, -24, -2, -12, 0, -3,
    18, -9, 19, 18, 7, 17, 20, -20, 11, -11, 0, 4, 5, 11, 18, -7, -22, -5, -15, 24, -17, -23, 22, 18,
    -23, -15, -7, -5, -14, 11, -3, 3, -4, -7, 17, -13, 19, -2, 17, -19, 24, 1, 2, 8, 11, -21, 20, -12,
    22, -9, 8, 11, -14, -4, -19, 20, -22, 2, -14, 23, 9, -24, 9, -17, -22, 17, 6, -1, -4, -21, 0, 18,
    8, -9, 12, -13, -23, 13, 7, -13, 16, -2, 5, -5, -19, 9, -10, -23, 23, 9, 1, 24, 4, -17, -24, 3]"

definition triplets_192 :: "int list" where
  "triplets_192 = [
    10, -2, 12, -5, -1, 15, 22, 6, -6, 11, 20, -9, 24, 8, -7, -22, 23, -10, 3, 5, 2, 8, -6, 14,
    13, -10, 7, -12, 11, 11, 16, -7, 21, -13, -7, -12, 9, 14, 5, -8, 18, -9, 12, -2, 8, -22, 13, 21,
    3, -3, -10, -1, -2, 19, -13, 7, -21, -8, -5, -17, 16, -4, 18, -14, -22, 17, 13, 23, 12, 2, -2, 5,
    -12, -4, -14, 1, 9, -2, -17, 6, -12, 22, -9, -13, -9, 22, -24, 2, -1, -10, -14, -23, -13, 14, 6, -3,
    -23, 7, -23, -12, 12, 16, -6, 4, 3, 20, 22, -20, 5, 14, 3, -15, 12, -13, 19, -11, 24, -22, -12, -20,
    9, -12, 16, 17, 21, 24, -20, -10, -14, -9, 16, -21, -7, -23, -4, -20, 10, -8, 18, -14, 20, 6, 24, 10,
    -2, 4, 10, -21, -16, -2, -18, -11, -15, -12, 14, -21, 14, -15, 18, -7, -17, -2, 12, -1, 20, 18, 0, 7,
    -13, -12, -17, 14, 23, 18, 21, -5, 24, -7, -15, -6, 1, 16, -5, 1, 9, 18, 22, -4, 22, 3, 18, 8]"

definition triplets_224 :: "int list" where
  "triplets_224 = [
    -10, 6, -16, 9, 4, -24, 5, -4, -18, -18, -12, -24, -16, -6, -19, -19, 18, 23, 19, -23, 23, -4, -10, -13,
    13, -6, 19, 8, 19, -6, 8, -17, 12, -17, 0, 22, 8, 7, 22, 22, -22, -22, 22, -19, 19, -23, -17, 16,
    0, 21, 13, 12, 21, -22, -19, -15, -12, 3, -16, 1, -1, 22, -1, -24, 19, 13, -9, 14, -6, 7, 24, -1,
    -18, -11, -18, -3, -22, -5, -13, 1, 15, 9, 18, 7, -5, 10, 24, 12, -24, 22, -7, 0, -1, -15, 3, 24,
    21, -23, 19, -16, -5, 8, 18, -12, 14, 18, -16, -5, -20, 16, -20, 19, -2, -19, -20, 22, -23, -13, 21, -3,
    19, -16, 23, -19, 24, 7, -19, -1, 18, 5, 20, 15, 13, 22, 24, -11, 3, -14, -19, 14, -23, -9, 12, 17,
    -6, 14, -9, -1, -22, -9, 19, -1, -21, -18, 23, -10, 22, 17, 14, 1, -12, -23, 7, 0, -3, -8, 8, 21,
    24, -2, 24, 2, -6, -12, 8, 2, 9, 14, -3, 6, -10, -3, -11, -24, 18, -5, -12, -20, -7, 12, -5, -6]"

definition triplets_256 :: "int list" where
  "triplets_256 = [
    -17, -2, -17, -21, -15, -15, 5, 21, 9, -15, -23, -12, -10, 10, -8, 10, 4, 7, 23, -3, 9, 4, 11, 4,
    -1, -9, -21, -21, 22, -4, -12, 19, -15, -3, -24, 0, -24, -8, -19, 9, 17, -7, 20, -16, 21, -24, -11, 19,
    11, -21, 19, -14, 23, -21, 23, -9, 20, 7, 17, -6, -18, -5, 5, 21, -17, 11, -3, -15, -21, -16, -13, 11,
    14, -2, -20, 3, 2, -17, -16, 19, -12, -21, -3, 15, 21, 19, 5, 20, -6, -1, 21, 9, 1, 12, 23, -9,
    9, -6, 22, 7, 6, 0, 4, 14, 23, -21, -4, 18, -6, -12, -23, -24, -13, 9, 14, 22, 6, 21, -19, -9,
    -2, -8, -5, 22, -16, 23, -3, 23, -3, 19, 10, -18, -22, 7, -19, 21, 12, -12, -9, 23, -16, -6, -24, 7,
    1, 6, 14, 21, 15, -3, 4, -2, -11, 18, 10, 20, 3, 23, 23, -20, -13, 23, 11, 21, 20, -12, 19, -8,
    14, 14, 13, -4, 22, -14, 14, 23, 10, -12, 7, 21, 2, 4, 11, -20, -13, -11, 14, 8, 16, -13, 24, -14]"

definition triplets_288 :: "int list" where
  "triplets_288 = [
    -9, 17, -13, -8, -3, 21, -17, 4, -17, 16, 0, 24, -22, -15, -1, 18, -24, 8, -16, -7, -14, -10, 22, 5,
    1, 11, -1, -24, -9, 10, 7, -12, 14, 9, -4, 18, 21, 15, 5, -3, -23, -5, 16, 8, 18, 24, -11, 23,
    17, -1, 18, -12, 13, 19, -18, 10, -14, 12, -14, 24, -4, -5, -9, 20, 12, 20, 16, -5, 15, -8, -20, -7,
    -24, 5, -16, 10, -11, -6, -21, 12, -24, -15, 14, -15, 21, -1, 19, 6, -5, 19, 24, 12, 3, 10, 12, -15,
    -22, 1, -17, -13, -4, 4, 19, -8, 22, -12, 14, -23, 11, -9, 16, -4, -10, 2, -24, -8, 5, 21, -21, 14,
    14, -21, 22, -11, -8, -22, -23, -1, 19, -5, -11, 13, 13, 5, 4, -12, 18, -24, -13, 2, -14, 22, 9, 19,
    13, -15, 9, 22, 19, -17, -3, 4, -3, 5, -2, -14, 11, 2, 4, -21, -15, 2, -17, -5, -16, -1, 15, -20,
    15, 0, 7, -7, -20, 0, -2, 23, -1, 12, -19, -10, -3, 13, 19, -18, 15, -23, -21, 5, -19, 10, 3, 18]"

definition triplets_320 :: "int list" where
  "triplets_320 = [
    -17, 9, -16, -12, 19, 24, -20, -1, -24, -24, -22, -9, 12, -16, 18, -5, -19, -6, -12, 10, -8, -23, 8, -11,
    17, -8, 15, 21, -13, 11, 11, 24, 11, 14, -23, 6, 15, 7, 19, 22, -23, 14, -4, 21, -2, 18, 7, 5,
    23, 24, 10, 10, -24, 10, -14, -4, -21, 24, 3, 2, 2, 24, 6, -6, 7, 24, 14, -16, 18, -8, -15, 11,
    -21, -8, -20, 0, 14, 23, -23, 11, -24, 22, 7, 22, 7, 24, 9, 19, 0, 23, 14, -6, 20, -9, 7, -23,
    20, 9, 13, 1, 9, 21, -11, -1, 9, -11, 15, 23, 8, -9, 23, 2, 10, 21, -19, 4, -19, -22, -2, 20,
    14, 20, 19, -23, 1, 23, 12, -1, -15, 22, 13, -18, 24, -5, 21, 11, 6, 12, 11, -2, 12, 5, 15, 7,
    -16, 10, -15, -13, 10, 17, -18, -15, -19, -5, 3, 8, 12, 12, 14, -9, 20, -12, -13, -23, -22, -18, -8, 13,
    15, -22, 16, -18, 18, 14, 7, 23, 20, -9, 2, -16, -17, -7, -24, -23, 9, 23, 9, -5, 5, -22, -16, -11]"

definition triplets_352 :: "int list" where
  "triplets_352 = [
    -22, -11, -20, 11, -2, 14, 11, 8, 16, -24, 18, -14, 17, 1, -6, 12, 7, 18, 4, 8, 7, -19, 4, 18,
    -10, -1, -19, 19, -23, -23, -1, 23, 1, 5, 13, -24, -16, 14, -19, -19, 21, -22, -9, -23, -9, 5, 16, 3,
    12, 21, 13, 11, 15, 23, -21, 23, -21, -12, -24, -17, -14, -8, -5, -21, 13, -1, 17, 24, 10, 19, -4, 6,
    21, -24, 13, -22, -2, -8, 23, -16, 21, -6, -5, -15, -12, 14, -11, -8, -6, 5, -5, 9, 16, 9, -23, 24,
    12, -24, 22, 8, 19, 2, -10, 0, 18, 23, 3, -22, -19, 3, -12, -20, 15, 6, -23, 19, -23, 5, -3, 23,
    24, 8, 4, 10, 24, -3, 8, 15, 7, -23, -2, 20, 19, 18, 23, 4, -24, 6, -9, -23, -6, 16, -2, 2,
    10, 7, 12, -1, 21, 7, -6, 2, 20, 16, 5, 6, 11, 3, -4, -14, 9, -12, 13, -17, 11, -22, 23, 15,
    11, 1, 17, 22, 4, -3, 18, -9, 21, 11, -14, -23, -9, 14, -14, -3, 14, 4, 12, -4, 21, 0, -24, 16]"

definition triplets_384 :: "int list" where
  "triplets_384 = [
    -21, 6, -16, -15, -23, -20, 14, -22, 0, -20, -13, 1, 7, -12, 13, 0, -15, -11, 16, 0, 10, 17, -1, 21,
    14, 2, -9, -18, 24, -5, -12, 23, -10, -6, 8, 9, 16, 0, -14, 24, -10, -16, -21, -14, -23, 12, -21, 13,
    -21, 21, -21, -24, 2, -15, 1, 19, 13, 8, 8, -23, -8, 6, 17, -19, -24, 7, -24, 18, -21, 10, 20, -24,
    3, 11, -4, 0, 22, -12, 8, 5, 18, -3, 17, 10, -21, 18, -21, 18, -22, -6, -9, 2, -5, 24, -17, 4,
    2, 6, 5, 5, -24, 21, 20, -24, 5, -17, 16, -3, -10, -2, 5, 5, -22, -9, -3, -13, -21, -12, 4, 23,
    6, 8, 3, 24, 13, -8, 5, 19, 11, -6, 10, 22, -18, 17, -18, -10, -18, 10, 20, 21, 21, 17, -3, 18,
    -23, 15, -19, 2, -21, -10, -16, 22, -18, -18, 2, 22, 2, 0, 5, 19, -8, 7, 5, -21, 4, 4, -14, 2,
    -16, 1, 18, 19, 15, 4, -15, -2, -20, -6, -18, -8, -19, -7, 0, -21, 10, -23, -15, 1, -16, 22, 7, 0]"

definition triplets_416 :: "int list" where
  "triplets_416 = [
    20, 12, 22, -12, 18, 1, 23, 14, 13, -2, 23, -2, 5, 16, 3, -1, -7, 9, -11, 11, -13, -11, -20, -23,
    -22, 9, -20, 2, -23, -3, 2, -1, 17, 3, 24, 19, -11, 1, -24, 3, 20, 20, -15, -8, -20, 12, -14, -11,
    20, -8, 19, -14, -14, 9, -24, 15, -8, -22, 9, -4, 22, 0, 0, -7, 24, -3, 19, -17, 23, -17, 1, 11,
    -24, 3, -16, -18, 15, -7, 10, -10, 9, 0, 23, 4, 9, 2, 15, 9, -20, -23, 16, 11, 7, -19, 8, 23,
    17, -14, 21, -17, -18, -14, -10, 11, -10, -24, 2, 13, 24, 7, -2, 15, -3, 11, -20, 18, -9, 21, 4, -7,
    -5, -18, -23, 10, -6, 11, 9, 0, 13, -1, -24, -12, 17, 10, 1, -1, -23, 15, 24, -8, 24, -2, -4, 14,
    -18, 0, 18, 6, -24, -23, 16, -19, 11, -9, -18, -1, -24, -5, -23, -3, 22, 15, -23, 0, -19, -15, 9, 12,
    3, -11, 3, -10, 22, -21, -3, -21, -14, -15, -20, 19, 22, 8, 1, -21, -11, 23, -9, -4, -10, -17, -9, -2]"

definition triplets_448 :: "int list" where
  "triplets_448 = [
    15, 20, 9, 20, -24, 3, -16, 19, -19, -16, 0, -21, 17, 12, 8, 9, -12, 11, 19, -23, 12, 12, 2, 0,
    24, -11, 24, -16, -22, -19, 18, 1, -7, -2, 5, -23, 10, 23, 2, -21, 1, -10, 15, -24, 16, -11, 4, 1,
    16, -20, 14, -13, -6, 13, 12, 15, 10, 6, -12, -20, -23, 13, -18, -5, 21, 1, -19, -7, -23, -1, -21, -15,
    -21, -9, -18, -8, -7, -15, 0, 18, -2, -17, -12, 10, -22, -2, 19, 21, -14, 22, 24, 6, 18, 1, 21, -19,
    14, -14, 15, 12, 3, 17, -14, -3, 4, -13, 5, 12, 12, 22, 24, -11, -9, -23, 0, 11, 11, 9, -20, 1,
    12, 12, 18, 16, -4, 9, 19, -2, -23, -17, 11, 22, 15, 13, 22, -4, 17, -3, -9, 11, -13, -2, -14, -5,
    5, -12, 14, -4, 18, -12, 21, 2, -19, 8, -23, 8, -10, 0, 8, -17, 12, 19, 18, 2, 10, -18, -21, 13,
    13, -3, 19, 4, -19, 1, -21, 8, -24, -10, -1, -23, 18, 9, 9, 9, 20, 3, -11, 18, -5, -24, -23, 3]"

definition triplets_480 :: "int list" where
  "triplets_480 = [
    -15, 17, -19, -13, 12, 19, 13, 3, 13, -14, -15, -23, 10, -23, 16, -10, -2, 16, -14, -23, -6, -21, 19, -6,
    -5, -14, -2, 21, -8, 11, 13, 16, 15, 6, -24, 14, -21, -8, -1, -21, 1, 14, 19, 14, 9, -19, 5, 21,
    8, -18, 17, -6, 12, 1, -19, 14, -21, -11, -13, 23, 12, -3, 9, -18, -17, -14, 12, 21, 19, 16, -11, 19,
    -23, -3, 14, 22, -24, 20, -7, 13, -18, -5, -18, -23, -22, -9, -10, -15, -18, 16, -5, -12, -4, 18, 10, -16,
    9, -15, 17, -10, 6, 16, 16, -1, -20, -6, -7, -20, -24, -18, -13, -1, 8, -2, 16, 6, 18, -22, 11, -12,
    4, -15, 1, 16, -20, 6, 17, 2, 21, 23, 15, -4, 21, -24, 13, 3, 21, 8, -4, 4, -12, -1, 19, -7,
    11, 5, -2, -12, -21, -13, -19, -11, -20, 20, -2, -24, 11, -1, -3, 20, -4, -23, 11, -1, 14, 2, 7, -2,
    -16, -1, -17, 23, -8, -14, 21, 6, 10, -15, 19, -24, 15, 12, 1, -23, -6, 11, -19, 19, -18, 17, 0, -8]"

definition triplets :: "float list" where
  "triplets = map (\<lambda>n. Fin (of_int n))
     (triplets_0 @ triplets_32 @ triplets_64 @ triplets_96 @ triplets_128 @ triplets_160 @ triplets_192 @ triplets_224 @
      triplets_256 @ triplets_288 @ triplets_320 @ triplets_352 @ triplets_384 @ triplets_416 @ triplets_448 @ triplets_480 @ [0])"

subsection \<open>The SSE intrinsics, lane by lane\<close>

text \<open>
  \<^verbatim>\<open>__m128\<close> is four \<^verbatim>\<open>float\<close> lanes and \<^verbatim>\<open>__m128i\<close> four 32-bit lanes, lane 0 first.
  The rounding of the single-precision multiplication, division, addition and subtraction
  and the values of the library's \<^verbatim>\<open>sin\<close> and \<^verbatim>\<open>cos\<close> are not fixed here: these scalar
  operations are the fields of a parameter, and everything proved below holds for every
  choice of them. Minimum, maximum and the conversion to integers are exact operations and
  are written out.
\<close>

type_synonym m128 = "float \<times> float \<times> float \<times> float"
type_synonym m128i = "32 word \<times> 32 word \<times> 32 word \<times> 32 word"

record fpu =
  fp_mul :: "float \<Rightarrow> float \<Rightarrow> float"
  fp_div :: "float \<Rightarrow> float \<Rightarrow> float"
  fp_add :: "float \<Rightarrow> float \<Rightarrow> float"
  fp_sub :: "float \<Rightarrow> float \<Rightarrow> float"
  fp_sin :: "float \<Rightarrow> float"
  fp_cos :: "float \<Rightarrow> float"

text \<open>
  \<^verbatim>\<open>minps\<close> and \<^verbatim>\<open>maxps\<close>: \<open>a < b ? a : b\<close> and \<open>a > b ? a : b\<close>, so the second operand
  when either is a NaN.
\<close>

definition minps :: "float \<Rightarrow> float \<Rightarrow> float" where
  "minps a b =
     (case a of Fin x \<Rightarrow> (case b of Fin y \<Rightarrow> if x < y then a else b | NaN \<Rightarrow> b) | NaN \<Rightarrow> b)"

definition maxps :: "float \<Rightarrow> float \<Rightarrow> float" where
  "maxps a b =
     (case a of Fin x \<Rightarrow> (case b of Fin y \<Rightarrow> if x > y then a else b | NaN \<Rightarrow> b) | NaN \<Rightarrow> b)"

text \<open>
  \<^verbatim>\<open>cvtps2dq\<close> under the default rounding mode, which the program never changes: the
  nearest integer, ties to the even one, and \<open>0x80000000\<close> for a NaN or a value outside the
  32-bit range.
\<close>

definition round_half_even :: "real \<Rightarrow> int" where
  "round_half_even x =
     (let f = \<lfloor>x\<rfloor>; d = x - of_int f
      in if d < 1 / 2 then f else if d > 1 / 2 then f + 1 else if even f then f else f + 1)"

definition cvtps :: "float \<Rightarrow> 32 word" where
  "cvtps a =
     (case a of
        Fin x \<Rightarrow>
          (let n = round_half_even x
           in if - (2 ^ 31) \<le> n \<and> n < 2 ^ 31 then of_int n else 0x80000000)
      | NaN \<Rightarrow> 0x80000000)"

definition lanes_ps :: "(float \<Rightarrow> float \<Rightarrow> float) \<Rightarrow> m128 \<Rightarrow> m128 \<Rightarrow> m128" where
  "lanes_ps f a b =
     (case a of (a0, a1, a2, a3) \<Rightarrow> case b of (b0, b1, b2, b3) \<Rightarrow>
        (f a0 b0, f a1 b1, f a2 b2, f a3 b3))"

definition mm_set_ps1 :: "float \<Rightarrow> m128" where
  "mm_set_ps1 a = (a, a, a, a)"

definition mm_loadu_ps :: "nat \<Rightarrow> m128" where
  "mm_loadu_ps triplet =
     (triplets ! triplet, triplets ! (triplet + 1), triplets ! (triplet + 2),
      triplets ! (triplet + 3))"

definition mm_mul_ps :: "fpu \<Rightarrow> m128 \<Rightarrow> m128 \<Rightarrow> m128" where
  "mm_mul_ps u = lanes_ps (fp_mul u)"

definition mm_div_ps :: "fpu \<Rightarrow> m128 \<Rightarrow> m128 \<Rightarrow> m128" where
  "mm_div_ps u = lanes_ps (fp_div u)"

definition mm_add_ps :: "fpu \<Rightarrow> m128 \<Rightarrow> m128 \<Rightarrow> m128" where
  "mm_add_ps u = lanes_ps (fp_add u)"

definition mm_sub_ps :: "fpu \<Rightarrow> m128 \<Rightarrow> m128 \<Rightarrow> m128" where
  "mm_sub_ps u = lanes_ps (fp_sub u)"

definition mm_min_ps :: "m128 \<Rightarrow> m128 \<Rightarrow> m128" where
  "mm_min_ps = lanes_ps minps"

definition mm_max_ps :: "m128 \<Rightarrow> m128 \<Rightarrow> m128" where
  "mm_max_ps = lanes_ps maxps"

definition mm_cvtps_epi32 :: "m128 \<Rightarrow> m128i" where
  "mm_cvtps_epi32 a =
     (case a of (a0, a1, a2, a3) \<Rightarrow> (cvtps a0, cvtps a1, cvtps a2, cvtps a3))"

definition lanes_epi32 :: "(32 word \<Rightarrow> 32 word \<Rightarrow> 32 word) \<Rightarrow> m128i \<Rightarrow> m128i \<Rightarrow> m128i" where
  "lanes_epi32 f a b =
     (case a of (a0, a1, a2, a3) \<Rightarrow> case b of (b0, b1, b2, b3) \<Rightarrow>
        (f a0 b0, f a1 b1, f a2 b2, f a3 b3))"

definition mm_setzero_si128 :: m128i where
  "mm_setzero_si128 = (0, 0, 0, 0)"

definition mm_add_epi32 :: "m128i \<Rightarrow> m128i \<Rightarrow> m128i" where
  "mm_add_epi32 = lanes_epi32 (\<lambda>a b. a + b)"

definition mm_sub_epi32 :: "m128i \<Rightarrow> m128i \<Rightarrow> m128i" where
  "mm_sub_epi32 = lanes_epi32 (\<lambda>a b. a - b)"

text \<open>\<^verbatim>\<open>_mm_mullo_epi32\<close>: the low 32 bits of each product.\<close>

definition mm_mullo_epi32 :: "m128i \<Rightarrow> m128i \<Rightarrow> m128i" where
  "mm_mullo_epi32 = lanes_epi32 (\<lambda>a b. a * b)"

definition mm_hadd_epi32 :: "m128i \<Rightarrow> m128i \<Rightarrow> m128i" where
  "mm_hadd_epi32 a b =
     (case a of (a0, a1, a2, a3) \<Rightarrow> case b of (b0, b1, b2, b3) \<Rightarrow>
        (a0 + a1, a2 + a3, b0 + b1, b2 + b3))"

definition mm_extract_epi32 :: "m128i \<Rightarrow> nat \<Rightarrow> 32 word" where
  "mm_extract_epi32 a imm8 =
     (case a of (a0, a1, a2, a3) \<Rightarrow>
        if imm8 = 0 then a0 else if imm8 = 1 then a1 else if imm8 = 2 then a2 else a3)"

text \<open>
  The image is the memory behind the pointer \<^verbatim>\<open>image\<close>: the byte at each offset from it,
  before the pointer as well as after it. The pixel in row \<open>r\<close> and column \<open>c\<close> is at offset
  \<open>stride * r + c\<close>; the model does not bound the reads, and which offsets belong to the
  image is said where it matters.
  \<^verbatim>\<open>_mm_cvtepu8_epi32(_mm_loadu_si128(p))\<close> loads 16 bytes at \<open>p\<close> and zero-extends the
  first four to the four lanes.
\<close>

type_synonym image = "int \<Rightarrow> 8 word"

definition mm_cvtepu8_epi32_loadu :: "image \<Rightarrow> int \<Rightarrow> m128i" where
  "mm_cvtepu8_epi32_loadu img p =
     (ucast (img p), ucast (img (p + 1)), ucast (img (p + 2)), ucast (img (p + 3)))"

subsection \<open>The worker \<^verbatim>\<open>_LATCH\<close>\<close>

text \<open>
  The value of an expression of type \<^verbatim>\<open>int\<close> whose mathematical value is \<open>v\<close>: \<open>v\<close>
  reduced to 32 bits in two's complement. Signed overflow is undefined behaviour in C++;
  the model gives an overflowing sum or product the value of the 32-bit \<^verbatim>\<open>add\<close> and
  \<^verbatim>\<open>imul\<close> of the processor, which wrap around.
\<close>

definition int32 :: "int \<Rightarrow> int" where
  "int32 v = sint (word_of_int v :: 32 word)"

text \<open>
  Lines 601 to 613, one pass of the loop over \<^verbatim>\<open>patchy\<close>. The coordinates are the
  \<^verbatim>\<open>int\<close>s extracted from \<^verbatim>\<open>xints\<close> and \<^verbatim>\<open>yints\<close>. In
  \<^verbatim>\<open>image + stride*(ay2 + patchy) + ax2 - 3\<close> the sum \<^verbatim>\<open>ay2 + patchy\<close> and the product with
  \<^verbatim>\<open>stride\<close> are 32-bit \<^verbatim>\<open>int\<close>s; the product, \<^verbatim>\<open>ax2\<close> and \<open>3\<close> are then added to the
  pointer one after the other, in the 64 bits of a pointer, where nothing overflows.
\<close>

definition accum_row ::
  "image \<Rightarrow> int \<Rightarrow> int \<Rightarrow> int \<Rightarrow> int \<Rightarrow> int \<Rightarrow> int \<Rightarrow> int \<Rightarrow> int \<Rightarrow> m128i \<Rightarrow> m128i" where
  "accum_row img stride ax2 bx2 cx2 ay2 by2 cy2 patchy accum =
     (let im_a = int32 (stride * int32 (ay2 + patchy)) + ax2 - 3;
          im_b = int32 (stride * int32 (by2 + patchy)) + bx2 - 3;
          im_c = int32 (stride * int32 (cy2 + patchy)) + cx2 - 3;
          b1 = mm_cvtepu8_epi32_loadu img im_b;
          b2 = mm_cvtepu8_epi32_loadu img (im_b + 4);
          da1 = mm_sub_epi32 (mm_cvtepu8_epi32_loadu img im_a) b1;
          da1 = mm_mullo_epi32 da1 da1;
          da2 = mm_sub_epi32 (mm_cvtepu8_epi32_loadu img (im_a + 4)) b2;
          da2 = mm_add_epi32 da1 (mm_mullo_epi32 da2 da2);
          dc1 = mm_sub_epi32 (mm_cvtepu8_epi32_loadu img im_c) b1;
          dc1 = mm_mullo_epi32 dc1 dc1;
          dc2 = mm_sub_epi32 (mm_cvtepu8_epi32_loadu img (im_c + 4)) b2
      in mm_add_epi32 (mm_sub_epi32 da2 (mm_add_epi32 dc1 (mm_mullo_epi32 dc2 dc2))) accum)"

text \<open>
  Lines 593 to 616 up to the sum \<^verbatim>\<open>_mm_extract_epi32(accum, 0) + _mm_extract_epi32(accum, 1)\<close>
  after the horizontal add: the value whose sign decides the bit.
\<close>

definition patch_sum :: "image \<Rightarrow> int \<Rightarrow> m128i \<Rightarrow> m128i \<Rightarrow> 32 word" where
  "patch_sum img stride xints yints =
     (let ax2 = sint (mm_extract_epi32 xints 0);
          bx2 = sint (mm_extract_epi32 xints 1);
          cx2 = sint (mm_extract_epi32 xints 2);
          ay2 = sint (mm_extract_epi32 yints 0);
          by2 = sint (mm_extract_epi32 yints 1);
          cy2 = sint (mm_extract_epi32 yints 2);
          accum = fold (accum_row img stride ax2 bx2 cx2 ay2 by2 cy2) [-3..4] mm_setzero_si128;
          accum = mm_hadd_epi32 accum accum
      in mm_extract_epi32 accum 0 + mm_extract_epi32 accum 1)"

text \<open>The values computed once for a keypoint, lines 580 to 584.\<close>

record regs =
  ptx :: m128
  pty :: m128
  sin_theta :: m128
  cos_theta :: m128
  scale_ps :: m128

definition keypoint_regs :: "fpu \<Rightarrow> KeyPoint \<Rightarrow> regs" where
  "keypoint_regs u pt =
     \<lparr> ptx = mm_set_ps1 (pt_x pt),
       pty = mm_set_ps1 (pt_y pt),
       sin_theta = mm_set_ps1 (fp_sin u (pt_angle pt)),
       cos_theta = mm_set_ps1 (fp_cos u (pt_angle pt)),
       scale_ps = mm_div_ps u (mm_set_ps1 (pt_scale pt)) (mm_set_ps1 (Fin 7)) \<rparr>"

text \<open>Lines 589 to 592: the rounded sample centres of the triplet at \<open>triplet\<close>.\<close>

definition sample_xints :: "fpu \<Rightarrow> regs \<Rightarrow> nat \<Rightarrow> m128i" where
  "sample_xints u r triplet =
     (let xs = mm_mul_ps u (mm_loadu_ps triplet) (scale_ps r);
          ys = mm_mul_ps u (mm_loadu_ps (triplet + 3)) (scale_ps r)
      in mm_cvtps_epi32 (mm_add_ps u (mm_min_ps (mm_max_ps
           (mm_sub_ps u (mm_mul_ps u xs (cos_theta r)) (mm_mul_ps u ys (sin_theta r)))
           (mm_set_ps1 (Fin (- 32)))) (mm_set_ps1 (Fin 32))) (ptx r)))"

definition sample_yints :: "fpu \<Rightarrow> regs \<Rightarrow> nat \<Rightarrow> m128i" where
  "sample_yints u r triplet =
     (let xs = mm_mul_ps u (mm_loadu_ps triplet) (scale_ps r);
          ys = mm_mul_ps u (mm_loadu_ps (triplet + 3)) (scale_ps r)
      in mm_cvtps_epi32 (mm_add_ps u (mm_min_ps (mm_max_ps
           (mm_add_ps u (mm_mul_ps u xs (sin_theta r)) (mm_mul_ps u ys (cos_theta r)))
           (mm_set_ps1 (Fin (- 32)))) (mm_set_ps1 (Fin 32))) (pty r)))"

text \<open>
  The descriptors are the memory behind \<^verbatim>\<open>descriptors\<close>, byte by byte; \<open>desc\<close> is the
  byte offset of \<^verbatim>\<open>descriptors + (i << 3)\<close>, that is \<open>64 * i\<close>. The state of the two inner
  loops is this memory and the running pointer \<^verbatim>\<open>triplet\<close>, as an index into the table.

  Line 616: \<^verbatim>\<open>desc[fragment] |= (sum & 0x80000000) >> (31 - bit)\<close>. The right-hand side is
  \<^verbatim>\<open>unsigned\<close>, the byte is promoted to 32 bits for the or, and the result is truncated.
\<close>

type_synonym mem = "nat \<Rightarrow> 8 word"

definition bit_step ::
  "fpu \<Rightarrow> image \<Rightarrow> int \<Rightarrow> regs \<Rightarrow> nat \<Rightarrow> nat \<Rightarrow> nat \<Rightarrow> mem \<times> nat \<Rightarrow> mem \<times> nat" where
  "bit_step u img stride r desc fragment bit' st =
     (case st of (d, triplet) \<Rightarrow>
        let xints = sample_xints u r triplet;
            yints = sample_yints u r triplet;
            s = patch_sum img stride xints yints;
            v = drop_bit (31 - bit') (s AND 0x80000000)
        in (d(desc + fragment := ucast (ucast (d (desc + fragment)) OR v)), triplet + 6))"

definition fragment_step ::
  "fpu \<Rightarrow> image \<Rightarrow> int \<Rightarrow> regs \<Rightarrow> nat \<Rightarrow> nat \<Rightarrow> mem \<times> nat \<Rightarrow> mem \<times> nat" where
  "fragment_step u img stride r desc fragment st =
     (case st of (d, triplet) \<Rightarrow>
        fold (bit_step u img stride r desc fragment) [0..<8] (d(desc + fragment := 0), triplet))"

text \<open>The body of the loop over \<open>i\<close>, lines 578 to 618, for the keypoint \<open>pt = keypoints[i]\<close>.\<close>

definition keypoint_step :: "fpu \<Rightarrow> image \<Rightarrow> int \<Rightarrow> KeyPoint \<Rightarrow> nat \<Rightarrow> mem \<Rightarrow> mem" where
  "keypoint_step u img stride pt i d =
     (let desc = 64 * i;
          r = keypoint_regs u pt
      in fst (fold (fragment_step u img stride r desc) [0..<64] (d, 0)))"

text \<open>
  The loop \<^verbatim>\<open>for (int i = start; i < start + thread_stride; ++i)\<close>. \<^verbatim>\<open>keypoints[i]\<close> with
  \<open>i\<close> outside the vector is undefined behaviour, which the model returns as an error.
\<close>

datatype error = OutOfRange

function LATCH_loop ::
  "fpu \<Rightarrow> image \<Rightarrow> int \<Rightarrow> KeyPoint list \<Rightarrow> int \<Rightarrow> int \<Rightarrow> mem \<Rightarrow> error + mem" where
  "LATCH_loop u img stride keypoints i stop d =
     (if i < stop
      then (if 0 \<le> i \<and> i < int (length keypoints)
            then LATCH_loop u img stride keypoints (i + 1) stop
                   (keypoint_step u img stride (keypoints ! nat i) (nat i) d)
            else Inl OutOfRange)
      else Inr d)"
  by pat_completeness auto
termination
  by (relation "measure (\<lambda>(u, img, stride, keypoints, i, stop, d). nat (stop - i))") auto

declare LATCH_loop.simps [simp del]

text \<open>\<^verbatim>\<open>_LATCH(start, thread_stride, image, stride, keypoints, descriptors)\<close>.\<close>

definition LATCH_worker ::
  "fpu \<Rightarrow> int \<Rightarrow> int \<Rightarrow> image \<Rightarrow> int \<Rightarrow> KeyPoint list \<Rightarrow> mem \<Rightarrow> error + mem" where
  "LATCH_worker u start thread_stride img stride keypoints descriptors =
     LATCH_loop u img stride keypoints start (start + thread_stride) descriptors"

subsection \<open>The entry point \<^verbatim>\<open>LATCH\<close>\<close>

text \<open>
  Lines 631 to 635: the arguments \<open>(start, thread_stride)\<close> of the calls of \<^verbatim>\<open>_LATCH\<close> that
  are launched with \<^verbatim>\<open>std::async\<close>, in the order of the launches.
\<close>

function async_launches :: "int \<Rightarrow> int \<Rightarrow> int \<Rightarrow> int \<Rightarrow> int \<Rightarrow> (int \<times> int) list" where
  "async_launches i start bound thread_stride sz =
     (if i < bound
      then (start, thread_stride) #
           async_launches (i + 1) (start + thread_stride) bound thread_stride sz
      else [(start, sz - start)])"
  by pat_completeness auto
termination
  by (relation "measure (\<lambda>(i, start, bound, thread_stride, sz). nat (bound - i))") auto

declare async_launches.simps [simp del]

text \<open>
  The launched workers run concurrently. Each writes only the descriptor slots of its own
  range and the ranges of different launches never meet (\<open>launches_ordered\<close> below), so the
  memory after the join is the same for every interleaving; the model runs the launches one
  after the other. Undefined behaviour in one worker is undefined behaviour of the call.
\<close>

fun run_launches ::
  "fpu \<Rightarrow> image \<Rightarrow> int \<Rightarrow> KeyPoint list \<Rightarrow> (int \<times> int) list \<Rightarrow> mem \<Rightarrow> error + mem" where
  "run_launches u img stride keypoints [] d = Inr d"
| "run_launches u img stride keypoints ((start, thread_stride) # rest) d =
     (case LATCH_worker u start thread_stride img stride keypoints d of
        Inl e \<Rightarrow> Inl e
      | Inr d' \<Rightarrow> run_launches u img stride keypoints rest d')"

text \<open>
  What a call of \<^verbatim>\<open>LATCH\<close> leaves behind: the filtered vector, the descriptor memory, and
  the launches it made with \<^verbatim>\<open>std::async\<close> (none on the sequential paths).
\<close>

record outcome =
  keypoints_out :: "KeyPoint list"
  descriptors_out :: "error + mem"
  launched :: "(int \<times> int) list"

text \<open>
  \<^verbatim>\<open>LATCH<multithread>\<close>. \<open>hardware_concurrency\<close> is what
  \<^verbatim>\<open>std::thread::hardware_concurrency()\<close> returns, an \<^verbatim>\<open>unsigned\<close> that is cast to
  \<^verbatim>\<open>int32_t\<close>. \<open>sz\<close> is not negative, so \<^verbatim>\<open>sz >> 4\<close> is \<open>sz div 16\<close>, and the division
  \<^verbatim>\<open>(sz - 1) / hw_concur\<close> has operands that are not negative where it is evaluated.
\<close>

definition LATCH ::
  "bool \<Rightarrow> 32 word \<Rightarrow> fpu \<Rightarrow> image \<Rightarrow> int \<Rightarrow> int \<Rightarrow> int \<Rightarrow> KeyPoint list \<Rightarrow> mem \<Rightarrow> outcome" where
  "LATCH multithread hardware_concurrency u img width height stride keypoints descriptors =
     (let keypoints = filter_keypoints width height keypoints;
          sz = int (length keypoints)
      in if multithread
         then (let hw_concur = min (sz div 16) (sint hardware_concurrency)
               in if hw_concur > 1
                  then (let thread_stride = (sz - 1) div hw_concur + 1;
                            launches = async_launches 0 0 (min (sz - 1) (hw_concur - 1))
                                         thread_stride sz
                        in \<lparr> keypoints_out = keypoints,
                             descriptors_out =
                               run_launches u img stride keypoints launches descriptors,
                             launched = launches \<rparr>)
                  else \<lparr> keypoints_out = keypoints,
                         descriptors_out =
                           LATCH_worker u 0 sz img stride keypoints descriptors,
                         launched = [] \<rparr>)
         else \<lparr> keypoints_out = keypoints,
                descriptors_out = LATCH_worker u 0 sz img stride keypoints descriptors,
                launched = [] \<rparr>)"

subsection \<open>The values the statements are about\<close>

text \<open>
  The accumulated sum of the patch comparison for keypoint \<open>pt\<close> and triplet number \<open>t\<close>:
  the value \<open>patch_sum\<close> has in the pass of the inner loop that starts with the table pointer
  at \<open>6 * t\<close>.
\<close>

definition evaluator :: "fpu \<Rightarrow> image \<Rightarrow> int \<Rightarrow> KeyPoint \<Rightarrow> nat \<Rightarrow> 32 word" where
  "evaluator u img stride pt t =
     (let r = keypoint_regs u pt
      in patch_sum img stride (sample_xints u r (6 * t)) (sample_yints u r (6 * t)))"

text \<open>
  The rounded sample centre \<open>(x, y)\<close> of point \<open>k\<close> of triplet \<open>t\<close>: \<open>k = 0\<close> for A, \<open>1\<close>
  for the anchor B, \<open>2\<close> for C.
\<close>

definition centre :: "fpu \<Rightarrow> KeyPoint \<Rightarrow> nat \<Rightarrow> nat \<Rightarrow> int \<times> int" where
  "centre u pt t k =
     (let r = keypoint_regs u pt
      in (sint (mm_extract_epi32 (sample_xints u r (6 * t)) k),
          sint (mm_extract_epi32 (sample_yints u r (6 * t)) k)))"

text \<open>
  The byte that the worker reads for the pixel in row \<open>row\<close> and column \<open>col\<close>, at the
  offset that line 601 computes for it, and the sum over the rows \<open>-3..4\<close> and columns
  \<open>-3..4\<close> around the three centres of \<open>(A - B)\<^sup>2 - (C - B)\<^sup>2\<close> of these bytes, in the
  integers.
\<close>

definition pixel :: "image \<Rightarrow> int \<Rightarrow> int \<Rightarrow> int \<Rightarrow> int" where
  "pixel img stride row col = uint (img (int32 (stride * int32 row) + col))"

definition window_term ::
  "image \<Rightarrow> int \<Rightarrow> int \<times> int \<Rightarrow> int \<times> int \<Rightarrow> int \<times> int \<Rightarrow> int \<Rightarrow> int \<Rightarrow> int" where
  "window_term img stride A B C dy dx =
     (pixel img stride (snd A + dy) (fst A + dx) - pixel img stride (snd B + dy) (fst B + dx))\<^sup>2 -
     (pixel img stride (snd C + dy) (fst C + dx) - pixel img stride (snd B + dy) (fst B + dx))\<^sup>2"

definition window_sum :: "image \<Rightarrow> int \<Rightarrow> int \<times> int \<Rightarrow> int \<times> int \<Rightarrow> int \<times> int \<Rightarrow> int" where
  "window_sum img stride A B C = (\<Sum>dy = -3..4. \<Sum>dx = -3..4. window_term img stride A B C dy dx)"

text \<open>
  The sum of the specification: the same sum of the pixels of the image, the pixel in row
  \<open>row\<close> and column \<open>col\<close> being the byte at offset \<open>stride * row + col\<close>.
\<close>

definition spec_pixel :: "image \<Rightarrow> int \<Rightarrow> int \<Rightarrow> int \<Rightarrow> int" where
  "spec_pixel img stride row col = uint (img (stride * row + col))"

definition spec_window_term ::
  "image \<Rightarrow> int \<Rightarrow> int \<times> int \<Rightarrow> int \<times> int \<Rightarrow> int \<times> int \<Rightarrow> int \<Rightarrow> int \<Rightarrow> int" where
  "spec_window_term img stride A B C dy dx =
     (spec_pixel img stride (snd A + dy) (fst A + dx) -
      spec_pixel img stride (snd B + dy) (fst B + dx))\<^sup>2 -
     (spec_pixel img stride (snd C + dy) (fst C + dx) -
      spec_pixel img stride (snd B + dy) (fst B + dx))\<^sup>2"

definition spec_window_sum ::
  "image \<Rightarrow> int \<Rightarrow> int \<times> int \<Rightarrow> int \<times> int \<Rightarrow> int \<times> int \<Rightarrow> int" where
  "spec_window_sum img stride A B C =
     (\<Sum>dy = -3..4. \<Sum>dx = -3..4. spec_window_term img stride A B C dy dx)"

text \<open>What lane \<open>j\<close> of \<open>accum\<close> gains in the row \<open>dy\<close>: the columns \<open>j - 3\<close> and \<open>j + 1\<close>.\<close>

definition lane_row ::
  "image \<Rightarrow> int \<Rightarrow> int \<times> int \<Rightarrow> int \<times> int \<Rightarrow> int \<times> int \<Rightarrow> int \<Rightarrow> int \<Rightarrow> int" where
  "lane_row img stride A B C dy j =
     window_term img stride A B C dy (j - 3) + window_term img stride A B C dy (j + 1)"

text \<open>
  The byte that line 616 ors into \<^verbatim>\<open>desc[fragment]\<close> for the sum \<open>s\<close> in pass \<open>b\<close>, and
  the descriptor byte \<open>f\<close> of a keypoint as a value: zero, then the eight bytes or-ed in.
\<close>

definition sign_mask :: "32 word \<Rightarrow> nat \<Rightarrow> 8 word" where
  "sign_mask s b = ucast (drop_bit (31 - b) (s AND 0x80000000))"

definition descriptor_byte :: "fpu \<Rightarrow> image \<Rightarrow> int \<Rightarrow> KeyPoint \<Rightarrow> nat \<Rightarrow> 8 word" where
  "descriptor_byte u img stride pt f =
     fold (\<lambda>b acc. acc OR sign_mask (evaluator u img stride pt (8 * f + b)) b) [0..<8] 0"

subsection \<open>A unit and inputs for concrete runs\<close>

text \<open>
  To run the model on concrete inputs the arithmetic must be fixed. \<open>exact_fpu\<close> computes
  every operation without rounding error; a division by zero gives a NaN, since infinities
  are left out. On the inputs used below (angle 0, scale 7 or 14, coordinates that are
  multiples of one quarter) single-precision arithmetic is exact as well, so the hardware
  computes the same values.
\<close>

definition exact1 :: "(real \<Rightarrow> real) \<Rightarrow> float \<Rightarrow> float" where
  "exact1 f a = (case a of Fin x \<Rightarrow> Fin (f x) | NaN \<Rightarrow> NaN)"

definition exact2 :: "(real \<Rightarrow> real \<Rightarrow> real) \<Rightarrow> float \<Rightarrow> float \<Rightarrow> float" where
  "exact2 f a b =
     (case a of Fin x \<Rightarrow> (case b of Fin y \<Rightarrow> Fin (f x y) | NaN \<Rightarrow> NaN) | NaN \<Rightarrow> NaN)"

definition exact_div :: "float \<Rightarrow> float \<Rightarrow> float" where
  "exact_div a b =
     (case a of Fin x \<Rightarrow> (case b of Fin y \<Rightarrow> if y = 0 then NaN else Fin (x / y) | NaN \<Rightarrow> NaN)
      | NaN \<Rightarrow> NaN)"

definition exact_fpu :: fpu where
  "exact_fpu =
     \<lparr> fp_mul = exact2 (\<lambda>x y. x * y), fp_div = exact_div,
       fp_add = exact2 (\<lambda>x y. x + y), fp_sub = exact2 (\<lambda>x y. x - y),
       fp_sin = exact1 sin, fp_cos = exact1 cos \<rparr>"

text \<open>A keypoint at \<open>(x, y)\<close> with scale 7 and angle 0, for which the sample centres are the
  keypoint plus the table's offsets.\<close>

definition upright :: "real \<Rightarrow> real \<Rightarrow> KeyPoint" where
  "upright x y = \<lparr> pt_x = Fin x, pt_y = Fin y, pt_scale = Fin 7, pt_angle = Fin 0 \<rparr>"

text \<open>Two images: all pixels 0, and all pixels 0 but one of value 255 at offset \<open>p\<close>.\<close>

definition dark :: image where
  "dark = (\<lambda>p. 0)"

definition spot :: "int \<Rightarrow> image" where
  "spot p = (\<lambda>q. if q = p then 255 else 0)"

text \<open>
  An image buffer of \<open>height\<close> rows of \<open>stride\<close> bytes, all of value \<open>v\<close>, in a memory
  whose other bytes have the value \<open>pad\<close>.
\<close>

definition flat_image :: "int \<Rightarrow> int \<Rightarrow> 8 word \<Rightarrow> 8 word \<Rightarrow> image" where
  "flat_image stride height v pad = (\<lambda>p. if 0 \<le> p \<and> p < stride * height then v else pad)"

text \<open>
  The keypoint \<open>(50, 63.75)\<close> with scale 14 and angle 0: a quarter of a pixel inside the
  lower margin of an image of height 100.
\<close>

definition low_keypoint :: KeyPoint where
  "low_keypoint = \<lparr> pt_x = Fin 50, pt_y = Fin (255 / 4), pt_scale = Fin 14, pt_angle = Fin 0 \<rparr>"

text \<open>A descriptor memory with every byte set to \<open>v\<close>.\<close>

definition filled :: "8 word \<Rightarrow> mem" where
  "filled v = (\<lambda>k. v)"

subsection \<open>Facts about the border filter\<close>

lemma excess_bits_small: "a < 2 ^ 24 \<Longrightarrow> excess_bits a = 0"
  by (simp add: excess_bits.simps)

lemma excess_bits_large:
  "\<not> a < 2 ^ 24 \<Longrightarrow> excess_bits a = Suc (excess_bits (a div 2))"
  by (subst excess_bits.simps) simp

lemma round_sig24_exact: "\<bar>n\<bar> < 2 ^ 24 \<Longrightarrow> round_sig24 n = n"
  by (simp add: round_sig24_def excess_bits_small mult_sgn_abs)

lemma find_if_le: "find_if p v \<le> length v"
  by (induction v) auto

lemma find_if_take: "filter (\<lambda>a. \<not> p a) (take (find_if p v) v) = take (find_if p v) v"
  by (induction v) auto

lemma find_if_hit: "find_if p v < length v \<Longrightarrow> p (v ! find_if p v)"
  by (induction v) (auto split: if_splits)

lemma remove_loop_filter:
  "first < i \<Longrightarrow> i \<le> length v \<Longrightarrow>
   take (snd (remove_loop p v first i)) (fst (remove_loop p v first i)) =
   take first v @ filter (\<lambda>a. \<not> p a) (drop i v)"
proof (induction p v first i rule: remove_loop.induct)
  case (1 p v first i)
  show ?case
  proof (cases "i < length v")
    case False
    with "1.prems" show ?thesis
      by (subst (1 2) remove_loop.simps) simp
  next
    case inside: True
    show ?thesis
    proof (cases "p (v ! i)")
      case True
      have "take (snd (remove_loop p v first (Suc i))) (fst (remove_loop p v first (Suc i))) =
            take first v @ filter (\<lambda>a. \<not> p a) (drop (Suc i) v)"
        using "1.IH"(2) [OF inside] True "1.prems" inside by simp
      moreover have "filter (\<lambda>a. \<not> p a) (drop i v) = filter (\<lambda>a. \<not> p a) (drop (Suc i) v)"
        using True inside by (simp add: Cons_nth_drop_Suc [symmetric])
      ultimately show ?thesis
        using True inside by (subst (1 2) remove_loop.simps) simp
    next
      case False
      let ?v = "v[first := v ! i]"
      have "take (snd (remove_loop p ?v (Suc first) (Suc i))) (fst (remove_loop p ?v (Suc first) (Suc i))) =
            take (Suc first) ?v @ filter (\<lambda>a. \<not> p a) (drop (Suc i) ?v)"
        using "1.IH"(1) [OF inside False] "1.prems" inside by simp
      moreover have "take (Suc first) ?v = take first v @ [v ! i]"
        using "1.prems" inside by (simp add: take_Suc_conv_app_nth)
      moreover have "drop (Suc i) ?v = drop (Suc i) v"
        using "1.prems" by simp
      moreover have "filter (\<lambda>a. \<not> p a) (drop i v) = v ! i # filter (\<lambda>a. \<not> p a) (drop (Suc i) v)"
        using False inside by (simp add: Cons_nth_drop_Suc [symmetric])
      ultimately show ?thesis
        using False inside by (subst (1 2) remove_loop.simps) simp
    qed
  qed
qed

lemma erase_remove_if:
  "(case remove_if p v of (w, first) \<Rightarrow> erase_to_end w first) = filter (\<lambda>a. \<not> p a) v"
proof (cases "find_if p v = length v")
  case True
  then show ?thesis
    using find_if_take [of p v] by (simp add: remove_if_def erase_to_end_def)
next
  case False
  let ?f = "find_if p v"
  have lt: "?f < length v"
    using False find_if_le [of p v] by simp
  have "filter (\<lambda>a. \<not> p a) v =
        filter (\<lambda>a. \<not> p a) (take ?f v) @ filter (\<lambda>a. \<not> p a) (drop ?f v)"
    by (metis append_take_drop_id filter_append)
  also have "filter (\<lambda>a. \<not> p a) (drop ?f v) = filter (\<lambda>a. \<not> p a) (drop (Suc ?f) v)"
    using find_if_hit [OF lt] lt by (simp add: Cons_nth_drop_Suc [symmetric])
  finally have "filter (\<lambda>a. \<not> p a) v = take ?f v @ filter (\<lambda>a. \<not> p a) (drop (Suc ?f) v)"
    by (simp add: find_if_take)
  moreover have "take (snd (remove_loop p v ?f (Suc ?f))) (fst (remove_loop p v ?f (Suc ?f))) =
        take ?f v @ filter (\<lambda>a. \<not> p a) (drop (Suc ?f) v)"
    using lt by (intro remove_loop_filter) simp_all
  ultimately show ?thesis
    using False by (simp add: remove_if_def erase_to_end_def case_prod_unfold Let_def)
qed

lemma filter_keypoints_eq:
  "filter_keypoints width height keypoints = filter (\<lambda>kp. \<not> border width height kp) keypoints"
  using erase_remove_if [of "border width height" keypoints]
  by (simp add: filter_keypoints_def)

subsection \<open>Facts about the table\<close>

lemma triplets_part_lengths:
  "length triplets_0 = 192"
  "length triplets_32 = 192"
  "length triplets_64 = 192"
  "length triplets_96 = 192"
  "length triplets_128 = 192"
  "length triplets_160 = 192"
  "length triplets_192 = 192"
  "length triplets_224 = 192"
  "length triplets_256 = 192"
  "length triplets_288 = 192"
  "length triplets_320 = 192"
  "length triplets_352 = 192"
  "length triplets_384 = 192"
  "length triplets_416 = 192"
  "length triplets_448 = 192"
  "length triplets_480 = 192"
  by (simp_all add: triplets_0_def triplets_32_def triplets_64_def triplets_96_def triplets_128_def triplets_160_def triplets_192_def triplets_224_def
      triplets_256_def triplets_288_def triplets_320_def triplets_352_def triplets_384_def triplets_416_def triplets_448_def triplets_480_def)

lemma triplets_length: "length triplets = 3073"
  by (simp add: triplets_def triplets_part_lengths)

lemma table_reads_inside:
  assumes "t < 512" and "j \<le> 3"
  shows "6 * t + j < length triplets" and "6 * t + 3 + j < length triplets"
  using assms by (simp_all add: triplets_length)

subsection \<open>Facts about the worker\<close>

lemma byte_or: "(ucast ((ucast (x :: 8 word) :: 32 word) OR v) :: 8 word) = x OR ucast v"
  by (rule bit_word_eqI) (auto simp: bit_simps)

lemma sign_mask_bit:
  assumes "b < 8"
  shows "bit (sign_mask s b) j \<longleftrightarrow> j = b \<and> sint s < 0"
proof -
  have top: "bit (0x80000000 :: int) n \<longleftrightarrow> n = 31" for n
    using bit_exp_iff [where ?'a = int, of 31 n] by auto
  have "bit (sign_mask s b) j \<longleftrightarrow> j < 8 \<and> 31 - b + j = 31 \<and> bit s 31"
    unfolding sign_mask_def by (auto simp: bit_simps top)
  also have "\<dots> \<longleftrightarrow> j = b \<and> bit s 31"
    using assms by auto
  also have "bit s 31 \<longleftrightarrow> sint s < 0"
    using bit_last_iff [of s] by simp
  finally show ?thesis .
qed

lemma bit_step_eq:
  "bit_step u img stride r desc f b (d, t) =
     (d(desc + f := d (desc + f) OR
          sign_mask (patch_sum img stride (sample_xints u r t) (sample_yints u r t)) b), t + 6)"
  by (simp add: bit_step_def byte_or Let_def sign_mask_def)

lemma fold_bit_step:
  "fold (bit_step u img stride r desc f) [0..<m] (d, t) =
     (d(desc + f := fold (\<lambda>b acc. acc OR sign_mask
          (patch_sum img stride (sample_xints u r (t + 6 * b)) (sample_yints u r (t + 6 * b))) b)
          [0..<m] (d (desc + f))), t + 6 * m)"
proof (induction m)
  case 0
  show ?case by simp
next
  case (Suc m)
  have "fold (bit_step u img stride r desc f) [0..<Suc m] (d, t) =
        bit_step u img stride r desc f m (fold (bit_step u img stride r desc f) [0..<m] (d, t))"
    by simp
  also have "\<dots> = bit_step u img stride r desc f m
      (d(desc + f := fold (\<lambda>b acc. acc OR sign_mask
          (patch_sum img stride (sample_xints u r (t + 6 * b)) (sample_yints u r (t + 6 * b))) b)
          [0..<m] (d (desc + f))), t + 6 * m)"
    by (simp only: Suc)
  also have "\<dots> = (d(desc + f := fold (\<lambda>b acc. acc OR sign_mask
          (patch_sum img stride (sample_xints u r (t + 6 * b)) (sample_yints u r (t + 6 * b))) b)
          [0..<Suc m] (d (desc + f))), t + 6 * Suc m)"
    by (simp add: bit_step_eq)
  finally show ?case .
qed

lemma fragment_step_eq:
  "fragment_step u img stride (keypoint_regs u pt) desc f (d, 48 * f) =
     (d(desc + f := descriptor_byte u img stride pt f), 48 * Suc f)"
  by (simp add: fragment_step_def fold_bit_step descriptor_byte_def evaluator_def Let_def
      algebra_simps)

lemma fold_fragment_step:
  "fold (fragment_step u img stride (keypoint_regs u pt) desc) [0..<n] (d, 0) =
     (\<lambda>k. if desc \<le> k \<and> k < desc + n then descriptor_byte u img stride pt (k - desc) else d k,
      48 * n)"
proof (induction n)
  case 0
  show ?case by (auto simp: fun_eq_iff)
next
  case (Suc n)
  have "fold (fragment_step u img stride (keypoint_regs u pt) desc) [0..<Suc n] (d, 0) =
        fragment_step u img stride (keypoint_regs u pt) desc n
          (fold (fragment_step u img stride (keypoint_regs u pt) desc) [0..<n] (d, 0))"
    by simp
  also have "\<dots> = fragment_step u img stride (keypoint_regs u pt) desc n
      (\<lambda>k. if desc \<le> k \<and> k < desc + n then descriptor_byte u img stride pt (k - desc) else d k,
       48 * n)"
    by (simp only: Suc)
  also have "\<dots> = ((\<lambda>k. if desc \<le> k \<and> k < desc + n then descriptor_byte u img stride pt (k - desc)
       else d k)(desc + n := descriptor_byte u img stride pt n), 48 * Suc n)"
    by (rule fragment_step_eq)
  also have "(\<lambda>k. if desc \<le> k \<and> k < desc + n then descriptor_byte u img stride pt (k - desc)
       else d k)(desc + n := descriptor_byte u img stride pt n) =
     (\<lambda>k. if desc \<le> k \<and> k < desc + Suc n then descriptor_byte u img stride pt (k - desc) else d k)"
    by (rule ext) auto
  finally show ?case .
qed

lemma keypoint_step_eq:
  "keypoint_step u img stride pt i d =
     (\<lambda>k. if k div 64 = i then descriptor_byte u img stride pt (k mod 64) else d k)"
proof (rule ext)
  fix k :: nat
  have "64 * i \<le> k \<and> k < 64 * i + 64 \<longleftrightarrow> k div 64 = i"
    by auto
  moreover have "k div 64 = i \<Longrightarrow> k - 64 * i = k mod 64"
    by (metis minus_mult_div_eq_mod mult.commute)
  ultimately show "keypoint_step u img stride pt i d k =
      (if k div 64 = i then descriptor_byte u img stride pt (k mod 64) else d k)"
    by (simp add: keypoint_step_def fold_fragment_step Let_def)
qed

lemma upto_m3_4: "[-3..4] = [-3, -2, -1, 0, 1, 2, 3, 4 :: int]"
  by (simp add: upto_rec1)

lemma sum_m3_4: "(\<Sum>dx = -3..4. f dx) = f (-3) + f (-2) + f (-1) + f 0 + f 1 + f 2 + f 3 + f (4 :: int)"
  for f :: "int \<Rightarrow> int"
proof -
  have "sum_list (map f [-3..4]) = sum f (set [-3..4])"
    by (rule interv_sum_list_conv_sum_set_int)
  also have "set [-3..4 :: int] = {-3..4}"
    by (rule set_upto)
  finally have "(\<Sum>dx = -3..4. f dx) = sum_list (map f [-3..4])"
    by (rule sym)
  also have "\<dots> = f (-3) + f (-2) + f (-1) + f 0 + f 1 + f 2 + f 3 + f 4"
    unfolding upto_m3_4 by simp
  finally show ?thesis .
qed

lemma int32_eq: "- (2 ^ 31) \<le> v \<Longrightarrow> v < 2 ^ 31 \<Longrightarrow> int32 v = v"
  by (simp add: int32_def signed_of_int signed_take_bit_int_eq_self)

lemma int32_high: "2 ^ 31 \<le> v \<Longrightarrow> v < 2 ^ 32 \<Longrightarrow> int32 v = v - 2 ^ 32"
proof -
  assume a: "2 ^ 31 \<le> v" "v < 2 ^ 32"
  have "(word_of_int v :: 32 word) = word_of_int (v - 2 ^ 32)"
    by simp
  then have "int32 v = int32 (v - 2 ^ 32)"
    by (simp only: int32_def)
  also have "\<dots> = v - 2 ^ 32"
    using a by (intro int32_eq) simp_all
  finally show ?thesis .
qed

lemma int32_range: "- (2 ^ 31) \<le> int32 v" "int32 v < 2 ^ 31"
  using sint_ge [of "word_of_int v :: 32 word"] sint_lt [of "word_of_int v :: 32 word"]
  by (simp_all add: int32_def)


lemma pixel_range: "0 \<le> pixel img stride row col" "pixel img stride row col \<le> 255"
proof -
  show "0 \<le> pixel img stride row col"
    by (simp add: pixel_def)
  have "uint (img (int32 (stride * int32 row) + col)) < 2 ^ 8"
    using uint_bounded [of "img (int32 (stride * int32 row) + col)"] by simp
  then show "pixel img stride row col \<le> 255"
    by (simp add: pixel_def)
qed

lemma sq_diff_bound:
  fixes a b :: int
  assumes "0 \<le> a" "a \<le> 255" "0 \<le> b" "b \<le> 255"
  shows "(a - b)\<^sup>2 \<le> 65025"
proof -
  have "\<bar>a - b\<bar> \<le> 255"
    using assms by linarith
  then have "(a - b)\<^sup>2 \<le> 255\<^sup>2"
    by (metis abs_le_square_iff abs_numeral)
  then show ?thesis by simp
qed

lemma window_term_bounds:
  "- 65025 \<le> window_term img stride A B C dy dx"
  "window_term img stride A B C dy dx \<le> 65025"
proof -
  let ?A = "pixel img stride (snd A + dy) (fst A + dx)"
  let ?B = "pixel img stride (snd B + dy) (fst B + dx)"
  let ?C = "pixel img stride (snd C + dy) (fst C + dx)"
  have a: "(?A - ?B)\<^sup>2 \<le> 65025" and c: "(?C - ?B)\<^sup>2 \<le> 65025"
    by (intro sq_diff_bound pixel_range)+
  have "0 \<le> (?A - ?B)\<^sup>2" "0 \<le> (?C - ?B)\<^sup>2"
    by simp_all
  with a c show "- 65025 \<le> window_term img stride A B C dy dx"
    and "window_term img stride A B C dy dx \<le> 65025"
    unfolding window_term_def by linarith+
qed

lemma window_sum_bounds:
  "- 4161600 \<le> window_sum img stride A B C"
  "window_sum img stride A B C \<le> 4161600"
proof -
  let ?t = "window_term img stride A B C"
  have row_le: "(\<Sum>dx = -3..4. ?t dy dx) \<le> 520200" for dy
    using sum_bounded_above [of "{-3..4::int}" "?t dy" 65025] window_term_bounds(2)
    by simp
  have row_ge: "- 520200 \<le> (\<Sum>dx = -3..4. ?t dy dx)" for dy
    using sum_bounded_below [of "{-3..4::int}" "- 65025" "?t dy"] window_term_bounds(1)
    by simp
  show "window_sum img stride A B C \<le> 4161600"
    using sum_bounded_above [of "{-3..4::int}" "\<lambda>dy. \<Sum>dx = -3..4. ?t dy dx" 520200] row_le
    by (simp add: window_sum_def)
  show "- 4161600 \<le> window_sum img stride A B C"
    using sum_bounded_below [of "{-3..4::int}" "- 520200" "\<lambda>dy. \<Sum>dx = -3..4. ?t dy dx"] row_ge
    by (simp add: window_sum_def)
qed

lemma lane_word:
  fixes A1 A2 B1 B2 C1 C2 :: "8 word"
  shows "(ucast A1 - ucast B1) * (ucast A1 - ucast B1) +
         (ucast A2 - ucast B2) * (ucast A2 - ucast B2) -
         ((ucast C1 - ucast B1) * (ucast C1 - ucast B1) +
          (ucast C2 - ucast B2) * (ucast C2 - ucast B2)) + (of_int l :: 32 word) =
         of_int (l + (((uint A1 - uint B1)\<^sup>2 - (uint C1 - uint B1)\<^sup>2) +
                      ((uint A2 - uint B2)\<^sup>2 - (uint C2 - uint B2)\<^sup>2)))"
  by (simp add: power2_eq_square)

lemma accum_row_of_int:
  "accum_row img stride ax bx cx ay by cy dy (of_int l0, of_int l1, of_int l2, of_int l3) =
     (of_int (l0 + lane_row img stride (ax, ay) (bx, by) (cx, cy) dy 0),
      of_int (l1 + lane_row img stride (ax, ay) (bx, by) (cx, cy) dy 1),
      of_int (l2 + lane_row img stride (ax, ay) (bx, by) (cx, cy) dy 2),
      of_int (l3 + lane_row img stride (ax, ay) (bx, by) (cx, cy) dy 3))"
  unfolding accum_row_def Let_def mm_cvtepu8_epi32_loadu_def mm_sub_epi32_def
      mm_add_epi32_def mm_mullo_epi32_def lanes_epi32_def prod.case lane_word
  by (simp add: lane_row_def window_term_def pixel_def algebra_simps)

lemma fold_accum_row:
  "fold (accum_row img stride ax bx cx ay by cy) rows (of_int l0, of_int l1, of_int l2, of_int l3) =
     (of_int (l0 + (\<Sum>dy\<leftarrow>rows. lane_row img stride (ax, ay) (bx, by) (cx, cy) dy 0)),
      of_int (l1 + (\<Sum>dy\<leftarrow>rows. lane_row img stride (ax, ay) (bx, by) (cx, cy) dy 1)),
      of_int (l2 + (\<Sum>dy\<leftarrow>rows. lane_row img stride (ax, ay) (bx, by) (cx, cy) dy 2)),
      of_int (l3 + (\<Sum>dy\<leftarrow>rows. lane_row img stride (ax, ay) (bx, by) (cx, cy) dy 3)))"
proof (induction rows arbitrary: l0 l1 l2 l3)
  case Nil
  show ?case by simp
next
  case (Cons dy rows)
  show ?case
    by (simp only: fold_simps accum_row_of_int Cons list.map sum_list.Cons add.assoc)
qed

lemma lanes_total:
  "lane_row img stride A B C dy 0 + lane_row img stride A B C dy 1 +
   lane_row img stride A B C dy 2 + lane_row img stride A B C dy 3 =
   (\<Sum>dx = -3..4. window_term img stride A B C dy dx)"
  by (simp add: sum_m3_4 lane_row_def)

lemma patch_sum_of_int:
  "patch_sum img stride (x0, x1, x2, x3) (y0, y1, y2, y3) =
     of_int (window_sum img stride (sint x0, sint y0) (sint x1, sint y1) (sint x2, sint y2))"
proof -
  let ?L = "lane_row img stride (sint x0, sint y0) (sint x1, sint y1) (sint x2, sint y2)"
  let ?t = "window_term img stride (sint x0, sint y0) (sint x1, sint y1) (sint x2, sint y2)"
  have z: "mm_setzero_si128 = (of_int 0, of_int 0, of_int 0, of_int 0)"
    by (simp add: mm_setzero_si128_def)
  have "patch_sum img stride (x0, x1, x2, x3) (y0, y1, y2, y3) =
        of_int ((\<Sum>dy\<leftarrow>[-3..4]. ?L dy 0) + (\<Sum>dy\<leftarrow>[-3..4]. ?L dy 1) +
                ((\<Sum>dy\<leftarrow>[-3..4]. ?L dy 2) + (\<Sum>dy\<leftarrow>[-3..4]. ?L dy 3)))"
    unfolding patch_sum_def Let_def mm_extract_epi32_def prod.case z fold_accum_row
      mm_hadd_epi32_def
    by simp
  also have "(\<Sum>dy\<leftarrow>[-3..4]. ?L dy 0) + (\<Sum>dy\<leftarrow>[-3..4]. ?L dy 1) +
        ((\<Sum>dy\<leftarrow>[-3..4]. ?L dy 2) + (\<Sum>dy\<leftarrow>[-3..4]. ?L dy 3)) =
        (\<Sum>dy\<leftarrow>[-3..4]. ?L dy 0 + ?L dy 1 + ?L dy 2 + ?L dy 3)"
    by (simp only: sum_list_addf add.assoc)
  also have "\<dots> = (\<Sum>dy\<leftarrow>[-3..4]. \<Sum>dx = -3..4. ?t dy dx)"
    by (simp only: lanes_total)
  also have "\<dots> = (\<Sum>dy\<in>set [-3..4]. \<Sum>dx = -3..4. ?t dy dx)"
    by (rule interv_sum_list_conv_sum_set_int)
  also have "\<dots> = window_sum img stride (sint x0, sint y0) (sint x1, sint y1) (sint x2, sint y2)"
    by (simp only: set_upto window_sum_def)
  finally show ?thesis .
qed

lemma sint_patch_sum:
  "sint (patch_sum img stride (x0, x1, x2, x3) (y0, y1, y2, y3)) =
     window_sum img stride (sint x0, sint y0) (sint x1, sint y1) (sint x2, sint y2)"
proof -
  let ?w = "window_sum img stride (sint x0, sint y0) (sint x1, sint y1) (sint x2, sint y2)"
  have "- (2 ^ 31) \<le> ?w" "?w < 2 ^ 31"
    using window_sum_bounds [of img stride "(sint x0, sint y0)" "(sint x1, sint y1)" "(sint x2, sint y2)"]
    by simp_all
  then have "signed_take_bit 31 ?w = ?w"
    by (rule signed_take_bit_int_eq_self)
  then show ?thesis
    by (simp add: patch_sum_of_int signed_of_int)
qed

lemma LATCH_loop_in_range:
  "0 \<le> i \<Longrightarrow> stop \<le> int (length keypoints) \<Longrightarrow>
   LATCH_loop u img stride keypoints i stop d =
     Inr (\<lambda>k. if i \<le> int (k div 64) \<and> int (k div 64) < stop
              then descriptor_byte u img stride (keypoints ! (k div 64)) (k mod 64) else d k)"
proof (induction u img stride keypoints i stop d rule: LATCH_loop.induct)
  case (1 u img stride keypoints i stop d)
  show ?case
  proof (cases "i < stop")
    case False
    then have "(\<lambda>k. if i \<le> int (k div 64) \<and> int (k div 64) < stop
              then descriptor_byte u img stride (keypoints ! (k div 64)) (k mod 64) else d k) = d"
      by (auto simp: fun_eq_iff)
    with False show ?thesis
      by (subst LATCH_loop.simps) simp
  next
    case True
    let ?d = "keypoint_step u img stride (keypoints ! nat i) (nat i) d"
    have inside: "0 \<le> i \<and> i < int (length keypoints)"
      using True "1.prems" by simp
    have "LATCH_loop u img stride keypoints (i + 1) stop ?d =
        Inr (\<lambda>k. if i + 1 \<le> int (k div 64) \<and> int (k div 64) < stop
              then descriptor_byte u img stride (keypoints ! (k div 64)) (k mod 64) else ?d k)"
      using "1.IH" [OF True inside] "1.prems" by simp
    moreover have "(\<lambda>k. if i + 1 \<le> int (k div 64) \<and> int (k div 64) < stop
              then descriptor_byte u img stride (keypoints ! (k div 64)) (k mod 64) else ?d k) =
        (\<lambda>k. if i \<le> int (k div 64) \<and> int (k div 64) < stop
              then descriptor_byte u img stride (keypoints ! (k div 64)) (k mod 64) else d k)"
    proof (rule ext)
      fix k :: nat
      show "(if i + 1 \<le> int (k div 64) \<and> int (k div 64) < stop
              then descriptor_byte u img stride (keypoints ! (k div 64)) (k mod 64) else ?d k) =
        (if i \<le> int (k div 64) \<and> int (k div 64) < stop
              then descriptor_byte u img stride (keypoints ! (k div 64)) (k mod 64) else d k)"
      proof (cases "int (k div 64) = i")
        case True
        then have "k div 64 = nat i" by simp
        with True \<open>i < stop\<close> show ?thesis
          by (simp add: keypoint_step_eq)
      next
        case False
        then have "k div 64 \<noteq> nat i" using inside by auto
        with False show ?thesis
          by (auto simp: keypoint_step_eq)
      qed
    qed
    ultimately show ?thesis
      using True inside by (subst LATCH_loop.simps) simp
  qed
qed

lemma LATCH_loop_overrun:
  "0 \<le> i \<Longrightarrow> i < stop \<Longrightarrow> int (length keypoints) < stop \<Longrightarrow>
   LATCH_loop u img stride keypoints i stop d = Inl OutOfRange"
proof (induction u img stride keypoints i stop d rule: LATCH_loop.induct)
  case (1 u img stride keypoints i stop d)
  show ?case
  proof (cases "i < int (length keypoints)")
    case False
    with "1.prems" show ?thesis
      by (subst LATCH_loop.simps) simp
  next
    case True
    then have "LATCH_loop u img stride keypoints (i + 1) stop
        (keypoint_step u img stride (keypoints ! nat i) (nat i) d) = Inl OutOfRange"
      using "1.IH" "1.prems" by simp
    with True "1.prems" show ?thesis
      by (subst LATCH_loop.simps) simp
  qed
qed

lemma LATCH_loop_empty: "stop \<le> i \<Longrightarrow> LATCH_loop u img stride keypoints i stop d = Inr d"
  by (subst LATCH_loop.simps) simp

lemma LATCH_worker_in_range:
  "0 \<le> start \<Longrightarrow> start + thread_stride \<le> int (length keypoints) \<Longrightarrow>
   LATCH_worker u start thread_stride img stride keypoints d =
     Inr (\<lambda>k. if start \<le> int (k div 64) \<and> int (k div 64) < start + thread_stride
              then descriptor_byte u img stride (keypoints ! (k div 64)) (k mod 64) else d k)"
  unfolding LATCH_worker_def by (rule LATCH_loop_in_range)

lemma LATCH_worker_overrun:
  "0 \<le> start \<Longrightarrow> 0 < thread_stride \<Longrightarrow> int (length keypoints) < start + thread_stride \<Longrightarrow>
   LATCH_worker u start thread_stride img stride keypoints d = Inl OutOfRange"
  unfolding LATCH_worker_def by (rule LATCH_loop_overrun) simp_all

lemma LATCH_worker_empty:
  "thread_stride \<le> 0 \<Longrightarrow> LATCH_worker u start thread_stride img stride keypoints d = Inr d"
  unfolding LATCH_worker_def by (rule LATCH_loop_empty) simp

lemma evaluator_sint:
  "sint (evaluator u img stride pt t) =
     window_sum img stride (centre u pt t 0) (centre u pt t 1) (centre u pt t 2)"
proof -
  obtain x0 x1 x2 x3 where x: "sample_xints u (keypoint_regs u pt) (6 * t) = (x0, x1, x2, x3)"
    by (metis prod_cases4)
  obtain y0 y1 y2 y3 where y: "sample_yints u (keypoint_regs u pt) (6 * t) = (y0, y1, y2, y3)"
    by (metis prod_cases4)
  show ?thesis
    by (simp add: evaluator_def centre_def Let_def x y sint_patch_sum mm_extract_epi32_def)
qed

lemma descriptor_byte_bit:
  assumes "b < 8"
  shows "bit (descriptor_byte u img stride pt f) b \<longleftrightarrow>
         sint (evaluator u img stride pt (8 * f + b)) < 0"
proof -
  have step: "bit (fold (\<lambda>b acc. acc OR sign_mask (s b) b) [0..<m] acc0) j \<longleftrightarrow>
      bit acc0 j \<or> (j < m \<and> sint (s j) < 0)" if "m \<le> 8" for m j acc0 and s :: "nat \<Rightarrow> 32 word"
    using that
  proof (induction m)
    case 0
    show ?case by simp
  next
    case (Suc m)
    then show ?case
      by (auto simp: bit_simps sign_mask_bit less_Suc_eq)
  qed
  show ?thesis
    using step [of 8 "\<lambda>b. evaluator u img stride pt (8 * f + b)" 0 b] assms
    by (simp add: descriptor_byte_def)
qed

lemma evaluator_of_int:
  "evaluator u img stride pt t =
     of_int (window_sum img stride (centre u pt t 0) (centre u pt t 1) (centre u pt t 2))"
proof -
  obtain x0 x1 x2 x3 where x: "sample_xints u (keypoint_regs u pt) (6 * t) = (x0, x1, x2, x3)"
    by (metis prod_cases4)
  obtain y0 y1 y2 y3 where y: "sample_yints u (keypoint_regs u pt) (6 * t) = (y0, y1, y2, y3)"
    by (metis prod_cases4)
  show ?thesis
    by (simp add: evaluator_def centre_def Let_def x y patch_sum_of_int mm_extract_epi32_def)
qed

lemma sign_and:
  "(s AND 0x80000000) = (if sint s < 0 then 0x80000000 else 0)" for s :: "32 word"
proof -
  have top: "bit (0x80000000 :: int) n \<longleftrightarrow> n = 31" for n
    using bit_exp_iff [where ?'a = int, of 31 n] by auto
  have last: "bit s 31 \<longleftrightarrow> sint s < 0"
    using bit_last_iff [of s] by simp
  show ?thesis
    by (rule bit_word_eqI) (auto simp: bit_simps top last)
qed

lemma window_sum_constant:
  assumes "\<forall>p. img p = v"
  shows "window_sum img stride A B C = 0"
  using assms by (simp add: window_sum_def window_term_def pixel_def)

lemma sign_mask_zero: "sign_mask 0 b = 0"
  by (simp add: sign_mask_def)

lemma descriptor_byte_constant:
  assumes "\<forall>p. img p = v"
  shows "descriptor_byte u img stride pt f = 0"
proof -
  have z: "evaluator u img stride pt t = 0" for t
    using window_sum_constant [OF assms] by (simp add: evaluator_of_int)
  have "fold (\<lambda>b acc. acc OR (0 :: 8 word)) bs 0 = 0" for bs :: "nat list"
    by (induction bs) simp_all
  then show ?thesis
    by (simp add: descriptor_byte_def z sign_mask_zero)
qed

lemma LATCH_sequential:
  "descriptors_out (LATCH False hc u img width height stride keypoints d) =
     LATCH_worker u 0 (int (length (filter_keypoints width height keypoints))) img stride
       (filter_keypoints width height keypoints) d"
  by (simp add: LATCH_def Let_def)

subsection \<open>The window in a buffer of fewer than \<open>2\<^sup>3\<^sup>1\<close> bytes\<close>

text \<open>
  If the rows \<open>y - 3\<close> to \<open>y + 4\<close> around each centre start at offsets from 0 to below
  \<open>2\<^sup>3\<^sup>1\<close>, the 32-bit product of line 601 is the product, the worker reads the pixels of
  the windows, and the sign of its sum is the sign of the sum of the specification.
\<close>

lemma pixel_no_wrap:
  fixes stride row :: int
  assumes "- (2 ^ 31) \<le> row" and "row < 2 ^ 31"
    and "- (2 ^ 31) \<le> stride * row" and "stride * row < 2 ^ 31"
  shows "pixel img stride row col = spec_pixel img stride row col"
  using assms by (simp add: pixel_def spec_pixel_def int32_eq)

lemma row_in_buffer:
  fixes stride y dy :: int
  assumes "0 < stride" and "3 \<le> y" and "stride * (y + 4) < 2 ^ 31" and "- 3 \<le> dy" and "dy \<le> 4"
  shows "- (2 ^ 31) \<le> y + dy" "y + dy < 2 ^ 31"
    "- (2 ^ 31) \<le> stride * (y + dy)" "stride * (y + dy) < 2 ^ 31"
proof -
  have nonneg: "0 \<le> y + dy"
    using assms(2,4) by simp
  have "stride * (y + dy) \<le> stride * (y + 4)"
    using assms(1,5) by (intro mult_left_mono) simp_all
  then show hi: "stride * (y + dy) < 2 ^ 31"
    using assms(3) by simp
  have "0 \<le> stride * (y + dy)"
    using assms(1) nonneg by simp
  then show "- (2 ^ 31) \<le> stride * (y + dy)"
    by simp
  have "1 * (y + dy) \<le> stride * (y + dy)"
    using assms(1) nonneg by (intro mult_right_mono) simp_all
  then show "y + dy < 2 ^ 31"
    using hi by simp
  show "- (2 ^ 31) \<le> y + dy"
    using nonneg by simp
qed

lemma window_sum_in_buffer:
  assumes "0 < stride"
    and "3 \<le> snd A" and "stride * (snd A + 4) < 2 ^ 31"
    and "3 \<le> snd B" and "stride * (snd B + 4) < 2 ^ 31"
    and "3 \<le> snd C" and "stride * (snd C + 4) < 2 ^ 31"
  shows "window_sum img stride A B C = spec_window_sum img stride A B C"
proof -
  have px: "pixel img stride (y + dy) col = spec_pixel img stride (y + dy) col"
    if "3 \<le> y" and "stride * (y + 4) < 2 ^ 31" and "dy \<in> {-3..4}" for y dy col
    using that row_in_buffer [OF assms(1) that(1,2), of dy] by (intro pixel_no_wrap) simp_all
  have "window_term img stride A B C dy dx = spec_window_term img stride A B C dy dx"
    if "dy \<in> {-3..4}" for dy dx
    using that assms by (simp only: window_term_def spec_window_term_def px)
  then show ?thesis
    by (simp add: window_sum_def spec_window_sum_def)
qed

lemma evaluator_in_buffer:
  assumes "0 < stride"
    and "\<forall>k<3. 3 \<le> snd (centre u pt t k) \<and> stride * (snd (centre u pt t k) + 4) < 2 ^ 31"
  shows "sint (evaluator u img stride pt t) =
           spec_window_sum img stride (centre u pt t 0) (centre u pt t 1) (centre u pt t 2) \<and>
         drop_bit 31 (evaluator u img stride pt t AND 0x80000000) =
           (if spec_window_sum img stride (centre u pt t 0) (centre u pt t 1) (centre u pt t 2) < 0
            then 1 else 0)"
proof -
  have "window_sum img stride (centre u pt t 0) (centre u pt t 1) (centre u pt t 2) =
        spec_window_sum img stride (centre u pt t 0) (centre u pt t 1) (centre u pt t 2)"
    using assms by (intro window_sum_in_buffer) simp_all
  then show ?thesis
    by (simp add: evaluator_sint sign_and)
qed

subsection \<open>Facts about the border filter on narrow images\<close>

lemma round_sig24_nonpos:
  assumes "n \<le> 0"
  shows "round_sig24 n \<le> 0"
proof -
  let ?e = "excess_bits (nat \<bar>n\<bar>)"
  let ?q = "\<bar>n\<bar> div 2 ^ ?e"
  let ?r = "\<bar>n\<bar> mod 2 ^ ?e"
  let ?m = "(if 2 * ?r > 2 ^ ?e \<or> (2 * ?r = 2 ^ ?e \<and> odd ?q) then ?q + 1 else ?q) * 2 ^ ?e"
  have "0 \<le> ?q"
    by (simp only: pos_imp_zdiv_nonneg_iff zero_less_power zero_less_numeral abs_ge_zero)
  then have "0 \<le> ?m"
    by simp
  moreover have "sgn n \<le> 0"
    using assms by (simp add: sgn_if)
  ultimately have "sgn n * ?m \<le> 0"
    by (rule mult_nonpos_nonneg [rotated])
  moreover have "round_sig24 n = sgn n * ?m"
    unfolding round_sig24_def Let_def by (simp only: mult.assoc)
  ultimately show ?thesis
    by (simp only:)
qed

lemma round_sig24_le_36: "n \<le> 36 \<Longrightarrow> round_sig24 n \<le> 36"
proof (cases "\<bar>n\<bar> < 2 ^ 24")
  case True
  assume "n \<le> 36"
  with True show ?thesis by (simp add: round_sig24_exact)
next
  case False
  assume "n \<le> 36"
  with False have "n \<le> 0" by simp
  then have "round_sig24 n \<le> 0" by (rule round_sig24_nonpos)
  then show ?thesis by simp
qed

lemma float_of_int_36: "float_of_int 36 = Fin 36"
  by (simp add: float_of_int_def round_sig24_exact)

lemma border_narrow:
  assumes "width \<le> 72" and "pt_x kp \<noteq> NaN"
  shows "border width height kp"
proof -
  obtain x where x: "pt_x kp = Fin x"
    using assms(2) by (cases "pt_x kp") simp_all
  have "real_of_int (round_sig24 (width - 36)) \<le> 36"
    using round_sig24_le_36 [of "width - 36"] assms(1) by simp
  then have "x \<le> 36 \<or> real_of_int (round_sig24 (width - 36)) \<le> x"
    by linarith
  then show ?thesis
    unfolding border_def float_of_int_36 by (auto simp: x float_of_int_def)
qed

lemma border_low:
  assumes "height \<le> 72" and "pt_y kp \<noteq> NaN"
  shows "border width height kp"
proof -
  obtain y where y: "pt_y kp = Fin y"
    using assms(2) by (cases "pt_y kp") simp_all
  have "real_of_int (round_sig24 (height - 36)) \<le> 36"
    using round_sig24_le_36 [of "height - 36"] assms(1) by simp
  then have "y \<le> 36 \<or> real_of_int (round_sig24 (height - 36)) \<le> y"
    by linarith
  then show ?thesis
    unfolding border_def float_of_int_36 by (auto simp: y float_of_int_def)
qed

lemma LATCH_nothing_left:
  assumes "filter_keypoints width height keypoints = []"
  shows "LATCH multithread hc u img width height stride keypoints d =
         \<lparr> keypoints_out = [], descriptors_out = Inr d, launched = [] \<rparr>"
  by (simp add: LATCH_def Let_def assms LATCH_worker_empty)

subsection \<open>Concrete runs\<close>

lemma triplets_first: "k < 192 \<Longrightarrow> triplets ! k = Fin (of_int (triplets_0 ! k))"
  by (simp add: triplets_def nth_append triplets_part_lengths)

lemma loads_0:
  "mm_loadu_ps 0 = (Fin (- 5), Fin (- 16), Fin (- 9), Fin 1)"
  "mm_loadu_ps 3 = (Fin 1, Fin 16, Fin (- 21), Fin (- 7))"
  by (simp_all add: mm_loadu_ps_def triplets_first triplets_0_def)

lemma loads_7:
  "mm_loadu_ps 42 = (Fin 13, Fin 19, Fin 23, Fin (- 6))"
  "mm_loadu_ps 45 = (Fin (- 6), Fin 19, Fin (- 4), Fin 22)"
  by (simp_all add: mm_loadu_ps_def triplets_first triplets_0_def)

lemmas exact_run =
  keypoint_regs_def upright_def exact_fpu_def mm_set_ps1_def mm_mul_ps_def mm_div_ps_def
  mm_add_ps_def mm_sub_ps_def mm_min_ps_def mm_max_ps_def mm_cvtps_epi32_def lanes_ps_def
  exact1_def exact2_def exact_div_def minps_def maxps_def cvtps_def round_half_even_def
  sample_xints_def sample_yints_def Let_def mm_extract_epi32_def

lemma centres_0:
  "centre exact_fpu (upright 100 100) 0 0 = (95, 101)"
  "centre exact_fpu (upright 100 100) 0 1 = (84, 116)"
  "centre exact_fpu (upright 100 100) 0 2 = (91, 79)"
  by (simp_all add: centre_def exact_run loads_0)

lemma centres_7:
  "centre exact_fpu (upright 100 100) 7 0 = (113, 94)"
  "centre exact_fpu (upright 100 100) 7 1 = (119, 119)"
  "centre exact_fpu (upright 100 100) 7 2 = (123, 96)"
  by (simp_all add: centre_def exact_run loads_7)

lemma window_sum_spot_0: "window_sum (spot 15891) 200 (95, 101) (84, 116) (91, 79) = - 65025"
  by (simp add: window_sum_def sum_m3_4 window_term_def pixel_def spot_def int32_eq)

lemma window_sum_spot_7: "window_sum (spot 15891) 200 (113, 94) (119, 119) (123, 96) = 0"
  by (simp add: window_sum_def sum_m3_4 window_term_def pixel_def spot_def int32_eq)

lemma loads_1_6:
  "mm_loadu_ps 6 = (Fin (- 7), Fin (- 10), Fin (- 3), Fin 16)"
  "mm_loadu_ps 9 = (Fin 16, Fin (- 14), Fin 9, Fin 11)"
  "mm_loadu_ps 12 = (Fin 11, Fin 7, Fin 3, Fin 6)"
  "mm_loadu_ps 15 = (Fin 6, Fin 15, Fin (- 11), Fin (- 22))"
  "mm_loadu_ps 18 = (Fin (- 22), Fin (- 12), Fin (- 22), Fin 2)"
  "mm_loadu_ps 21 = (Fin 2, Fin 12, Fin 21, Fin 17)"
  "mm_loadu_ps 24 = (Fin 17, Fin 2, Fin 14, Fin (- 10))"
  "mm_loadu_ps 27 = (Fin (- 10), Fin 10, Fin (- 18), Fin 22)"
  "mm_loadu_ps 30 = (Fin 22, Fin (- 2), Fin 23, Fin (- 14))"
  "mm_loadu_ps 33 = (Fin (- 14), Fin (- 20), Fin 5, Fin 4)"
  "mm_loadu_ps 36 = (Fin 4, Fin 24, Fin 4, Fin 16)"
  "mm_loadu_ps 39 = (Fin 16, Fin (- 11), Fin (- 21), Fin 13)"
  by (simp_all add: mm_loadu_ps_def triplets_first triplets_0_def)

lemma evaluator_spot:
  "evaluator exact_fpu (spot 15891) 200 (upright 100 100) 0 = - 65025"
  "evaluator exact_fpu (spot 15891) 200 (upright 100 100) (Suc 0) = 0"
  "evaluator exact_fpu (spot 15891) 200 (upright 100 100) 2 = 0"
  "evaluator exact_fpu (spot 15891) 200 (upright 100 100) 3 = 0"
  "evaluator exact_fpu (spot 15891) 200 (upright 100 100) 4 = 0"
  "evaluator exact_fpu (spot 15891) 200 (upright 100 100) 5 = 0"
  "evaluator exact_fpu (spot 15891) 200 (upright 100 100) 6 = 0"
  "evaluator exact_fpu (spot 15891) 200 (upright 100 100) 7 = 0"
  by (simp_all add: evaluator_of_int centre_def exact_run loads_0 loads_1_6 loads_7
      window_sum_def sum_m3_4 window_term_def pixel_def spot_def int32_eq)

lemma upt_0_8: "[0..<8] = [0, 1, 2, 3, 4, 5, 6, 7]"
  by code_simp

lemma descriptor_byte_spot:
  "descriptor_byte exact_fpu (spot 15891) 200 (upright 100 100) 0 = 1"
  unfolding descriptor_byte_def upt_0_8 by (simp add: evaluator_spot sign_mask_def)

subsection \<open>Facts about the dispatch\<close>

lemma async_launches_step:
  "i < bound \<Longrightarrow> async_launches i start bound thread_stride sz =
     (start, thread_stride) # async_launches (i + 1) (start + thread_stride) bound thread_stride sz"
  by (subst async_launches.simps) simp

lemma async_launches_last:
  "\<not> i < bound \<Longrightarrow> async_launches i start bound thread_stride sz = [(start, sz - start)]"
  by (subst async_launches.simps) simp

lemma async_launches_length:
  "i \<le> bound \<Longrightarrow> length (async_launches i start bound thread_stride sz) = nat (bound - i) + 1"
proof (induction i start bound thread_stride sz rule: async_launches.induct)
  case (1 i start bound thread_stride sz)
  show ?case
  proof (cases "i < bound")
    case True
    then have "length (async_launches (i + 1) (start + thread_stride) bound thread_stride sz) =
        nat (bound - (i + 1)) + 1"
      using "1.IH" by simp
    with True show ?thesis
      by (simp add: async_launches_step)
  next
    case False
    with "1.prems" show ?thesis
      by (simp add: async_launches_last)
  qed
qed

lemma run_launches_overrun:
  assumes "(s, n) \<in> set launches" and "0 \<le> s" and "0 < n" and "int (length keypoints) < s + n"
  shows "run_launches u img stride keypoints launches d = Inl OutOfRange"
  using assms(1)
proof (induction launches arbitrary: d)
  case Nil
  then show ?case by simp
next
  case (Cons l launches)
  obtain s' n' where l: "l = (s', n')"
    by (cases l)
  show ?case
  proof (cases "LATCH_worker u s' n' img stride keypoints d")
    case (Inl e)
    then show ?thesis
      by (cases e) (simp add: l)
  next
    case (Inr d')
    have "(s', n') \<noteq> (s, n)"
      using Inr LATCH_worker_overrun [OF assms(2,3,4), of u img stride d] by auto
    then have "(s, n) \<in> set launches"
      using Cons.prems l by auto
    then have "run_launches u img stride keypoints launches d' = Inl OutOfRange"
      by (rule Cons.IH)
    with Inr show ?thesis
      by (simp add: l)
  qed
qed

lemma filter_keypoints_replicate:
  "\<not> border width height kp \<Longrightarrow>
   filter_keypoints width height (replicate n kp) = replicate n kp"
  by (simp add: filter_keypoints_eq)

lemma upright_inside: "\<not> border 1000 1000 (upright 100 100)"
  by (simp add: border_def upright_def float_of_int_def round_sig24_exact)

lemma launches_305_19:
  "async_launches 0 0 18 17 305 =
     [(0, 17), (17, 17), (34, 17), (51, 17), (68, 17), (85, 17), (102, 17), (119, 17),
      (136, 17), (153, 17), (170, 17), (187, 17), (204, 17), (221, 17), (238, 17), (255, 17),
      (272, 17), (289, 17), (306, - 1)]"
  by (simp add: async_launches_step async_launches_last)

subsection \<open>Facts about clamping and rounding\<close>

lemma clamp_range:
  "\<exists>r. minps (maxps v (Fin (- 32))) (Fin 32) = Fin r \<and> - 32 \<le> r \<and> r \<le> 32"
  by (cases v) (auto simp: minps_def maxps_def)

lemma clamp_value:
  "minps (maxps (Fin x) (Fin (- 32))) (Fin 32) = Fin (min (max x (- 32)) 32)"
  by (auto simp: minps_def maxps_def)

lemma round_half_even_nearest:
  "\<bar>x - of_int (round_half_even x)\<bar> \<le> 1 / 2 \<and>
   (\<bar>x - of_int (round_half_even x)\<bar> = 1 / 2 \<longrightarrow> even (round_half_even x))"
proof -
  define f where "f = \<lfloor>x\<rfloor>"
  have "of_int f \<le> x" "x < of_int f + 1"
    unfolding f_def by linarith+
  then have "\<bar>x - of_int (if x - of_int f < 1 / 2 then f
        else if x - of_int f > 1 / 2 then f + 1 else if even f then f else f + 1)\<bar> \<le> 1 / 2 \<and>
     (\<bar>x - of_int (if x - of_int f < 1 / 2 then f
        else if x - of_int f > 1 / 2 then f + 1 else if even f then f else f + 1)\<bar> = 1 / 2 \<longrightarrow>
      even (if x - of_int f < 1 / 2 then f
        else if x - of_int f > 1 / 2 then f + 1 else if even f then f else f + 1))"
    by (auto simp: abs_if)
  then show ?thesis
    by (simp add: round_half_even_def Let_def f_def)
qed

lemma sint_cvtps:
  assumes "- (2 ^ 31) \<le> round_half_even x" and "round_half_even x < 2 ^ 31"
  shows "sint (cvtps (Fin x)) = round_half_even x"
proof -
  have "signed_take_bit 31 (round_half_even x) = round_half_even x"
    using assms by (intro signed_take_bit_int_eq_self) simp_all
  then show ?thesis
    using assms by (simp add: cvtps_def Let_def signed_of_int)
qed

lemma round_half_even_values:
  "round_half_even 18 = 18" "round_half_even (383 / 4) = 96" "round_half_even (191 / 2) = 96"
  "round_half_even (189 / 2) = 94"
  by (simp_all add: round_half_even_def)

subsection \<open>Facts about the order of the launches and the agreement of the two paths\<close>

lemma async_launches_later:
  "0 \<le> thread_stride \<Longrightarrow> (s, n) \<in> set (async_launches i start bound thread_stride sz) \<Longrightarrow>
   start \<le> s"
proof (induction i start bound thread_stride sz rule: async_launches.induct)
  case (1 i start bound thread_stride sz)
  show ?case
  proof (cases "i < bound")
    case True
    then have "(s, n) = (start, thread_stride) \<or>
        (s, n) \<in> set (async_launches (i + 1) (start + thread_stride) bound thread_stride sz)"
      using "1.prems"(2) by (simp add: async_launches_step)
    then show ?thesis
    proof
      assume "(s, n) = (start, thread_stride)"
      then show ?thesis by simp
    next
      assume "(s, n) \<in> set (async_launches (i + 1) (start + thread_stride) bound thread_stride sz)"
      then have "start + thread_stride \<le> s"
        using "1.IH" True "1.prems"(1) by simp
      then show ?thesis
        using "1.prems"(1) by simp
    qed
  next
    case False
    then show ?thesis
      using "1.prems"(2) by (simp add: async_launches_last)
  qed
qed

lemma launches_ordered:
  "0 \<le> thread_stride \<Longrightarrow>
   sorted_wrt (\<lambda>a b. fst a + snd a \<le> fst b) (async_launches i start bound thread_stride sz)"
proof (induction i start bound thread_stride sz rule: async_launches.induct)
  case (1 i start bound thread_stride sz)
  show ?case
  proof (cases "i < bound")
    case True
    have "\<forall>b \<in> set (async_launches (i + 1) (start + thread_stride) bound thread_stride sz).
        start + thread_stride \<le> fst b"
      using async_launches_later [OF "1.prems"] by (metis prod.collapse)
    moreover have "sorted_wrt (\<lambda>a b. fst a + snd a \<le> fst b)
        (async_launches (i + 1) (start + thread_stride) bound thread_stride sz)"
      using "1.IH" True "1.prems" by simp
    ultimately show ?thesis
      using True by (simp add: async_launches_step)
  next
    case False
    then show ?thesis
      by (simp add: async_launches_last)
  qed
qed

lemma worker_then_worker:
  assumes "0 \<le> s" and "0 \<le> n" and "0 \<le> m" and "s + n + m \<le> int (length keypoints)"
  shows "(case LATCH_worker u s n img stride keypoints d of
            Inl e \<Rightarrow> Inl e
          | Inr d' \<Rightarrow> LATCH_worker u (s + n) m img stride keypoints d') =
         LATCH_worker u s (n + m) img stride keypoints d"
proof -
  have 1: "LATCH_worker u s n img stride keypoints d =
     Inr (\<lambda>k. if s \<le> int (k div 64) \<and> int (k div 64) < s + n
              then descriptor_byte u img stride (keypoints ! (k div 64)) (k mod 64) else d k)"
    for d
    using assms by (intro LATCH_worker_in_range) simp_all
  have 2: "LATCH_worker u (s + n) m img stride keypoints d =
     Inr (\<lambda>k. if s + n \<le> int (k div 64) \<and> int (k div 64) < s + n + m
              then descriptor_byte u img stride (keypoints ! (k div 64)) (k mod 64) else d k)"
    for d
    using assms by (intro LATCH_worker_in_range) simp_all
  have 3: "LATCH_worker u s (n + m) img stride keypoints d =
     Inr (\<lambda>k. if s \<le> int (k div 64) \<and> int (k div 64) < s + (n + m)
              then descriptor_byte u img stride (keypoints ! (k div 64)) (k mod 64) else d k)"
    using assms by (intro LATCH_worker_in_range) simp_all
  show ?thesis
    unfolding 1 2 3 using assms(2,3) by (auto simp: fun_eq_iff)
qed

lemma run_async_launches:
  "i \<le> bound \<Longrightarrow> 0 \<le> start \<Longrightarrow> 0 \<le> thread_stride \<Longrightarrow>
   start + (bound - i) * thread_stride \<le> sz \<Longrightarrow> sz \<le> int (length keypoints) \<Longrightarrow>
   run_launches u img stride keypoints (async_launches i start bound thread_stride sz) d =
     LATCH_worker u start (sz - start) img stride keypoints d"
proof (induction i start bound thread_stride sz arbitrary: d rule: async_launches.induct)
  case (1 i start bound thread_stride sz)
  show ?case
  proof (cases "i < bound")
    case False
    then show ?thesis
      by (simp add: async_launches_last split: sum.split)
  next
    case True
    have more: "thread_stride \<le> (bound - i) * thread_stride"
      using True "1.prems"(3) by (simp add: mult_le_cancel_right1)
    have rest: "start + thread_stride + (bound - (i + 1)) * thread_stride \<le> sz"
      using "1.prems"(4) by (simp add: algebra_simps)
    have ih: "run_launches u img stride keypoints
        (async_launches (i + 1) (start + thread_stride) bound thread_stride sz) d' =
        LATCH_worker u (start + thread_stride) (sz - (start + thread_stride)) img stride keypoints d'"
      for d'
      using "1.IH" [OF True] True "1.prems" rest by simp
    have "run_launches u img stride keypoints (async_launches i start bound thread_stride sz) d =
        (case LATCH_worker u start thread_stride img stride keypoints d of
            Inl e \<Rightarrow> Inl e
          | Inr d' \<Rightarrow> LATCH_worker u (start + thread_stride) (sz - (start + thread_stride)) img
              stride keypoints d')"
      using True by (simp add: async_launches_step ih split: sum.split)
    also have "\<dots> = LATCH_worker u start (thread_stride + (sz - (start + thread_stride))) img
        stride keypoints d"
      using "1.prems" more by (intro worker_then_worker) simp_all
    finally show ?thesis
      by simp
  qed
qed

lemma partition_fits:
  fixes w sz :: int
  assumes "1 < w" and "w \<le> 18" and "w \<le> sz div 16"
  shows "(w - 1) * ((sz - 1) div w + 1) \<le> sz"
proof -
  have "w = 2 \<or> w = 3 \<or> w = 4 \<or> w = 5 \<or> w = 6 \<or> w = 7 \<or> w = 8 \<or> w = 9 \<or> w = 10 \<or>
        w = 11 \<or> w = 12 \<or> w = 13 \<or> w = 14 \<or> w = 15 \<or> w = 16 \<or> w = 17 \<or> w = 18"
    using assms(1,2) by arith
  then show ?thesis
    using assms(3) by (elim disjE) simp_all
qed

lemma multithread_agrees_up_to_18:
  assumes "sint hc \<le> 18"
  shows "keypoints_out (LATCH True hc u img width height stride keypoints d) =
           keypoints_out (LATCH False hc u img width height stride keypoints d) \<and>
         descriptors_out (LATCH True hc u img width height stride keypoints d) =
           descriptors_out (LATCH False hc u img width height stride keypoints d)"
proof -
  let ?kps = "filter_keypoints width height keypoints"
  let ?sz = "int (length ?kps)"
  let ?w = "min (?sz div 16) (sint hc)"
  let ?ts = "(?sz - 1) div ?w + 1"
  show ?thesis
  proof (cases "1 < ?w")
    case False
    then show ?thesis
      by (auto simp: LATCH_def Let_def)
  next
    case True
    have w: "?w \<le> 18" "?w \<le> ?sz div 16"
      using assms by simp_all
    then have wsz: "?w \<le> ?sz"
      by linarith
    then have bound: "min (?sz - 1) (?w - 1) = ?w - 1"
      by simp
    have fits: "(?w - 1) * ?ts \<le> ?sz"
      using True w by (rule partition_fits)
    have "0 < ?w" "0 \<le> ?sz - 1"
      using True wsz by linarith+
    then have "0 \<le> (?sz - 1) div ?w"
      by (simp only: pos_imp_zdiv_nonneg_iff)
    then have ts: "0 \<le> ?ts"
      by simp
    have "run_launches u img stride ?kps (async_launches 0 0 (?w - 1) ?ts ?sz) d =
        LATCH_worker u 0 (?sz - 0) img stride ?kps d"
      using True ts fits by (intro run_async_launches) simp_all
    then show ?thesis
      using True bound by (auto simp: LATCH_def Let_def)
  qed
qed

subsection \<open>A run at the lower margin\<close>

lemma low_keypoint_kept: "filter_keypoints 100 100 [low_keypoint] = [low_keypoint]"
  by (simp add: filter_keypoints_eq border_def low_keypoint_def float_of_int_def round_sig24_exact)

lemma centres_low_3:
  "centre exact_fpu low_keypoint 3 0 = (18, 68)"
  "centre exact_fpu low_keypoint 3 (Suc 0) = (26, 88)"
  "centre exact_fpu low_keypoint 3 2 = (18, 96)"
  by (simp_all add: centre_def exact_run low_keypoint_def loads_1_6)

lemma window_sum_low_3:
  "window_sum (flat_image 100 100 7 0) 100 (18, 68) (26, 88) (18, 96) = - 392"
  by (simp add: window_sum_def sum_m3_4 window_term_def pixel_def flat_image_def int32_eq)

subsection \<open>A memory of one value\<close>

text \<open>
  If every byte behind the image pointer has the same value, every accumulated sum is 0,
  the worker writes 64 zero bytes for every keypoint of its range, and so does the
  sequential \<^verbatim>\<open>LATCH\<close> for every keypoint that survives the filter.
\<close>

lemma constant_memory_zero_descriptor:
  assumes "\<forall>p. img p = v"
    and "0 \<le> start" and "start + thread_stride \<le> int (length keypoints)"
  shows "evaluator u img stride pt t = 0 \<and>
     LATCH_worker u start thread_stride img stride keypoints d =
       Inr (\<lambda>k. if start \<le> int (k div 64) \<and> int (k div 64) < start + thread_stride
                then 0 else d k) \<and>
     descriptors_out (LATCH False hc u img width height stride keypoints d) =
       Inr (\<lambda>k. if k < 64 * length (keypoints_out
                       (LATCH False hc u img width height stride keypoints d))
                then 0 else d k)"
proof -
  have "evaluator u img stride pt t = 0"
    using window_sum_constant [OF assms(1)] by (simp add: evaluator_of_int)
  moreover have "LATCH_worker u start thread_stride img stride keypoints d =
       Inr (\<lambda>k. if start \<le> int (k div 64) \<and> int (k div 64) < start + thread_stride
                then 0 else d k)"
    by (simp add: LATCH_worker_in_range [OF assms(2,3)] descriptor_byte_constant [OF assms(1)]
        cong: if_cong)
  moreover have "descriptors_out (LATCH False hc u img width height stride keypoints d) =
       Inr (\<lambda>k. if k < 64 * length (keypoints_out
                       (LATCH False hc u img width height stride keypoints d))
                then 0 else d k)"
  proof -
    let ?kps = "filter_keypoints width height keypoints"
    have "LATCH_worker u 0 (int (length ?kps)) img stride ?kps d =
       Inr (\<lambda>k. if 0 \<le> int (k div 64) \<and> int (k div 64) < 0 + int (length ?kps)
                then descriptor_byte u img stride (?kps ! (k div 64)) (k mod 64) else d k)"
      by (rule LATCH_worker_in_range) simp_all
    moreover have "k div 64 < length ?kps \<longleftrightarrow> k < 64 * length ?kps" for k
      by (simp add: div_less_iff_less_mult mult.commute)
    moreover have "keypoints_out (LATCH False hc u img width height stride keypoints d) = ?kps"
      by (simp add: LATCH_def Let_def)
    ultimately show ?thesis
      by (simp add: LATCH_sequential descriptor_byte_constant [OF assms(1)] cong: if_cong)
  qed
  ultimately show ?thesis by simp
qed

lemma constant_memory_zero_descriptor_example:
  "evaluator exact_fpu (\<lambda>p. 7) 200 (upright 100 100) 0 = 0 \<and>
   LATCH_worker exact_fpu 0 1 (\<lambda>p. 7) 200 [upright 100 100] (filled 255) =
     Inr (\<lambda>k. if k < 64 then 0 else 255) \<and>
   descriptors_out (LATCH False 4 exact_fpu (\<lambda>p. 7) 200 200 200 [upright 100 100] (filled 255)) =
     Inr (\<lambda>k. if k < 64 then 0 else 255)"
proof -
  have kept: "keypoints_out (LATCH False 4 exact_fpu (\<lambda>p. 7) 200 200 200 [upright 100 100]
      (filled 255)) = [upright 100 100]"
    by (simp add: LATCH_def Let_def filter_keypoints_eq border_def upright_def float_of_int_def
        round_sig24_exact)
  have slot: "(k div 64 = 0) = (k < 64)" for k :: nat
    by arith
  show ?thesis
    using constant_memory_zero_descriptor [of "\<lambda>p. 7" 7 0 1 "[upright 100 100]" exact_fpu 200
        "upright 100 100" 0 "filled 255" 4 200 200]
    unfolding kept by (simp add: slot filled_def cong: if_cong)
qed

subsection \<open>A run on an image of more than \<open>2\<^sup>3\<^sup>1\<close> bytes\<close>

text \<open>
  The keypoint \<open>(100, 45000)\<close> in an image of 50000 by 50000 pixels, where the rows of the
  windows start beyond offset \<open>2\<^sup>3\<^sup>1\<close>.
\<close>

lemma upright_deep_kept:
  "filter_keypoints 50000 50000 [upright 100 45000] = [upright 100 45000]"
  by (simp add: filter_keypoints_eq border_def upright_def float_of_int_def round_sig24_exact)

lemma centres_deep_0:
  "centre exact_fpu (upright 100 45000) 0 0 = (95, 45001)"
  "centre exact_fpu (upright 100 45000) 0 (Suc 0) = (84, 45016)"
  "centre exact_fpu (upright 100 45000) 0 2 = (91, 44979)"
  by (simp_all add: centre_def exact_run loads_0)

lemma spec_window_sum_deep_0:
  "spec_window_sum (spot 2248950091) 50000 (95, 45001) (84, 45016) (91, 44979) = - 65025"
  by (simp add: spec_window_sum_def sum_m3_4 spec_window_term_def spec_pixel_def spot_def)

lemma window_sum_deep_0:
  "window_sum (spot 2248950091) 50000 (95, 45001) (84, 45016) (91, 44979) = 0"
  "window_sum (spot (- 2046017205)) 50000 (95, 45001) (84, 45016) (91, 44979) = - 65025"
  by (simp_all add: window_sum_def sum_m3_4 window_term_def pixel_def spot_def int32_eq int32_high)

lemma evaluator_deep:
  "evaluator exact_fpu (spot 2248950091) 50000 (upright 100 45000) 0 = 0"
  "evaluator exact_fpu (spot 2248950091) 50000 (upright 100 45000) (Suc 0) = 0"
  "evaluator exact_fpu (spot 2248950091) 50000 (upright 100 45000) 2 = 0"
  "evaluator exact_fpu (spot 2248950091) 50000 (upright 100 45000) 3 = 0"
  "evaluator exact_fpu (spot 2248950091) 50000 (upright 100 45000) 4 = 0"
  "evaluator exact_fpu (spot 2248950091) 50000 (upright 100 45000) 5 = 0"
  "evaluator exact_fpu (spot 2248950091) 50000 (upright 100 45000) 6 = 0"
  "evaluator exact_fpu (spot 2248950091) 50000 (upright 100 45000) 7 = 0"
  by (simp_all add: evaluator_of_int centre_def exact_run loads_0 loads_1_6 loads_7
      window_sum_def sum_m3_4 window_term_def pixel_def spot_def int32_eq int32_high)

lemma descriptor_byte_deep:
  "descriptor_byte exact_fpu (spot 2248950091) 50000 (upright 100 45000) 0 = 0"
  unfolding descriptor_byte_def upt_0_8 by (simp add: evaluator_deep sign_mask_def)

subsection \<open>The frame of a worker whose range lies in the vector\<close>

lemma worker_frame_in_range:
  assumes "0 \<le> start" and "start + thread_stride \<le> int (length keypoints)"
  shows "LATCH_worker u start thread_stride img stride keypoints d =
     Inr (\<lambda>k. if start \<le> int (k div 64) \<and> int (k div 64) < start + thread_stride
              then descriptor_byte u img stride (keypoints ! (k div 64)) (k mod 64)
              else d k) \<and>
   LATCH_worker u 0 (int (length keypoints)) img stride keypoints d =
     Inr (\<lambda>k. if k < 64 * length keypoints
              then descriptor_byte u img stride (keypoints ! (k div 64)) (k mod 64)
              else d k)"
proof -
  have "LATCH_worker u 0 (int (length keypoints)) img stride keypoints d =
     Inr (\<lambda>k. if 0 \<le> int (k div 64) \<and> int (k div 64) < 0 + int (length keypoints)
              then descriptor_byte u img stride (keypoints ! (k div 64)) (k mod 64)
              else d k)"
    by (rule LATCH_worker_in_range) simp_all
  moreover have "k div 64 < length keypoints \<longleftrightarrow> k < 64 * length keypoints" for k
    by (simp add: div_less_iff_less_mult mult.commute)
  ultimately show ?thesis
    using LATCH_worker_in_range [OF assms] by simp
qed

lemma worker_frame_example:
  "LATCH_worker exact_fpu 0 1 dark 200 [upright 100 100] (filled 255) =
     Inr (\<lambda>k. if k < 64 then descriptor_byte exact_fpu dark 200 (upright 100 100) k else 255)"
proof -
  have slot: "(k div 64 = 0) = (k < 64)" for k :: nat
    by arith
  show ?thesis
    using worker_frame_in_range [of 0 1 "[upright 100 100]" exact_fpu dark 200 "filled 255"]
    by (simp add: slot filled_def cong: if_cong)
qed

lemma worker_289_16:
  "LATCH_worker exact_fpu 289 16 dark 1000 (replicate 305 (upright 100 100)) (filled 255) =
     Inr (\<lambda>k. if 18496 \<le> k \<and> k < 19520 then 0 else 255)"
proof -
  let ?kps = "replicate 305 (upright 100 100)"
  have "LATCH_worker exact_fpu 289 16 dark 1000 ?kps (filled 255) =
      Inr (\<lambda>k. if 289 \<le> int (k div 64) \<and> int (k div 64) < 289 + 16
                then descriptor_byte exact_fpu dark 1000 (?kps ! (k div 64)) (k mod 64)
                else filled 255 k)"
    by (rule LATCH_worker_in_range) simp_all
  moreover have slot: "(289 \<le> int (k div 64) \<and> int (k div 64) < 305) = (18496 \<le> k \<and> k < 19520)"
    for k :: nat
    by arith
  moreover have "descriptor_byte exact_fpu dark 1000 pt f = 0" for pt f
    by (rule descriptor_byte_constant [of dark 0]) (simp add: dark_def)
  ultimately show ?thesis
    by (simp add: filled_def slot cong: if_cong)
qed

section \<open>The claims\<close>

text \<open>
  C1, on an input where it fails: an image of 50000 by 50000 pixels with stride 50000, all
  of value 0 but the pixel in row 44979 and column 91, at offset \<open>50000 * 44979 + 91\<close>,
  which is 255; and the keypoint \<open>(100, 45000)\<close> with scale 7 and angle 0, which passes the
  filter. The centre of point C of triplet 0 is that pixel, so the sum of the specification
  over the windows is \<open>-255\<^sup>2\<close>, negative, and the bit is to be 1. The product
  \<open>50000 * 44979 = 2248950000\<close> does not fit the \<^verbatim>\<open>int\<close> of line 603: its 32-bit value is
  \<open>-2046017296\<close> and the worker reads its windows before the start of the image. The memory
  there holds 0 in this run, so the worker's sum is 0, the bit is 0 and so is byte 0 of the
  descriptor. The worker's sum is \<open>-255\<^sup>2\<close> when the bright byte is at offset
  \<open>-2046017205\<close> instead. For windows whose rows start below offset \<open>2\<^sup>3\<^sup>1\<close> the worker's
  sum is the sum of the specification, without wrap-around, and the bit is 1 exactly when
  it is negative (\<open>evaluator_in_buffer\<close>).
\<close>

theorem window_offset_wraps:
  "keypoints_out (LATCH False 4 exact_fpu (spot 2248950091) 50000 50000 50000
      [upright 100 45000] (filled 255)) = [upright 100 45000] \<and>
   centre exact_fpu (upright 100 45000) 0 2 = (91, 44979) \<and>
   spec_window_sum (spot 2248950091) 50000 (centre exact_fpu (upright 100 45000) 0 0)
     (centre exact_fpu (upright 100 45000) 0 1) (centre exact_fpu (upright 100 45000) 0 2) =
     - 65025 \<and>
   sint (evaluator exact_fpu (spot 2248950091) 50000 (upright 100 45000) 0) = 0 \<and>
   drop_bit 31 (evaluator exact_fpu (spot 2248950091) 50000 (upright 100 45000) 0 AND 0x80000000) =
     0 \<and>
   sint (evaluator exact_fpu (spot (- 2046017205)) 50000 (upright 100 45000) 0) = - 65025 \<and>
   (case descriptors_out (LATCH False 4 exact_fpu (spot 2248950091) 50000 50000 50000
            [upright 100 45000] (filled 255)) of
      Inr d' \<Rightarrow> d' 0 = 0
    | Inl e \<Rightarrow> False)"
proof -
  have kept: "keypoints_out (LATCH False 4 exact_fpu (spot 2248950091) 50000 50000 50000
      [upright 100 45000] (filled 255)) = [upright 100 45000]"
    by (simp add: LATCH_def Let_def upright_deep_kept)
  have spec: "spec_window_sum (spot 2248950091) 50000 (centre exact_fpu (upright 100 45000) 0 0)
     (centre exact_fpu (upright 100 45000) 0 1) (centre exact_fpu (upright 100 45000) 0 2) =
     - 65025"
    unfolding One_nat_def centres_deep_0 spec_window_sum_deep_0 ..
  have moved: "sint (evaluator exact_fpu (spot (- 2046017205)) 50000 (upright 100 45000) 0) =
     - 65025"
    unfolding evaluator_sint One_nat_def centres_deep_0 window_sum_deep_0 ..
  have "LATCH_worker exact_fpu 0 1 (spot 2248950091) 50000 [upright 100 45000] (filled 255) =
     Inr (\<lambda>k. if 0 \<le> int (k div 64) \<and> int (k div 64) < 0 + 1
              then descriptor_byte exact_fpu (spot 2248950091) 50000
                     ([upright 100 45000] ! (k div 64)) (k mod 64)
              else filled 255 k)"
    by (rule LATCH_worker_in_range) simp_all
  then have "case descriptors_out (LATCH False 4 exact_fpu (spot 2248950091) 50000 50000 50000
            [upright 100 45000] (filled 255)) of
      Inr d' \<Rightarrow> d' 0 = 0
    | Inl e \<Rightarrow> False"
    by (simp add: LATCH_sequential upright_deep_kept descriptor_byte_deep)
  with kept spec moved show ?thesis
    by (simp add: centres_deep_0 evaluator_deep)
qed

text \<open>
  C2, as amended. For every keypoint \<open>i\<close> of the worker's range, every byte \<open>f < 64\<close> and
  every \<open>b < 8\<close>, bit \<open>b\<close> of byte \<open>f\<close> of the descriptor is set exactly when the sum that
  the evaluator accumulates for triplet \<open>8 * f + b\<close> is negative: the first triplet of a byte
  is stored in its least significant bit (bit 0) and the eighth in its most significant bit
  (bit 7). The shift of line 616 is \<^verbatim>\<open>>> (31 - bit)\<close>, which moves the sign bit to position
  \<open>bit\<close>, not \<open>7 - bit\<close>. In the counterexample only triplet 0 has a negative sum and byte 0
  is \<open>0x01\<close>, not \<open>0x80\<close>.
\<close>

theorem descriptor_bit_order:
  assumes "0 \<le> start" and "start + thread_stride \<le> int (length keypoints)"
    and "start \<le> int i" and "int i < start + thread_stride" and "f < 64" and "b < 8"
  shows "\<exists>d'. LATCH_worker u start thread_stride img stride keypoints d = Inr d' \<and>
     (bit (d' (64 * i + f)) b \<longleftrightarrow>
      sint (evaluator u img stride (keypoints ! i) (8 * f + b)) < 0)"
proof -
  let ?d = "\<lambda>k. if start \<le> int (k div 64) \<and> int (k div 64) < start + thread_stride
              then descriptor_byte u img stride (keypoints ! (k div 64)) (k mod 64) else d k"
  have run: "LATCH_worker u start thread_stride img stride keypoints d = Inr ?d"
    using assms(1,2) by (rule LATCH_worker_in_range)
  have "(64 * i + f) div 64 = i" "(64 * i + f) mod 64 = f"
    using assms(5) by simp_all
  then have "?d (64 * i + f) = descriptor_byte u img stride (keypoints ! i) f"
    using assms(3,4) by simp
  then have "bit (?d (64 * i + f)) b \<longleftrightarrow>
      sint (evaluator u img stride (keypoints ! i) (8 * f + b)) < 0"
    by (simp only: descriptor_byte_bit [OF assms(6)])
  with run show ?thesis by blast
qed

theorem descriptor_bit_order_witness:
  "\<exists>d'. LATCH_worker exact_fpu 0 1 (spot 15891) 200 [upright 100 100] (filled 0) = Inr d' \<and>
     bit (d' 0) 0"
  using descriptor_bit_order [of 0 1 "[upright 100 100]" 0 0 0 exact_fpu "spot 15891" 200 "filled 0"]
  unfolding nth_Cons_0 mult_zero_right add_0 evaluator_spot by simp

theorem lsb_first_counterexample:
  "sint (evaluator exact_fpu (spot 15891) 200 (upright 100 100) 0) < 0 \<and>
   (case descriptors_out
           (LATCH False 4 exact_fpu (spot 15891) 200 200 200 [upright 100 100] (filled 0)) of
      Inr d' \<Rightarrow> d' 0 = 1 \<and> \<not> bit (d' 0) 7
    | Inl e \<Rightarrow> False)"
proof -
  have kept: "filter_keypoints 200 200 [upright 100 100] = [upright 100 100]"
    by (simp add: filter_keypoints_eq border_def upright_def float_of_int_def round_sig24_exact)
  have "LATCH_worker exact_fpu 0 1 (spot 15891) 200 [upright 100 100] (filled 0) =
     Inr (\<lambda>k. if 0 \<le> int (k div 64) \<and> int (k div 64) < 0 + 1
              then descriptor_byte exact_fpu (spot 15891) 200 ([upright 100 100] ! (k div 64))
                     (k mod 64)
              else filled 0 k)"
    by (rule LATCH_worker_in_range) simp_all
  then show ?thesis
    by (simp add: LATCH_sequential kept descriptor_byte_spot evaluator_spot)
qed

text \<open>
  C3. The border filter leaves in the vector exactly the keypoints for which
  \<open>x \<le> 36 \<or> y \<le> 36 \<or> x \<ge> width - 36 \<or> y \<ge> height - 36\<close> is false, in their original
  order, whichever path is taken afterwards. The comparisons are those of \<^verbatim>\<open>float\<close>, with
  the bounds converted to \<^verbatim>\<open>float\<close>. The witness runs the eight boundary cases: 36 and 64
  are removed and 37 and 63 stay, for \<open>x\<close> and for \<open>y\<close>, in an image of 100 by 100.
\<close>

theorem border_filter_exact:
  "keypoints_out (LATCH multithread hc u img width height stride keypoints d) =
     filter (\<lambda>kp. \<not> (float_le (pt_x kp) (Fin 36) \<or> float_le (pt_y kp) (Fin 36) \<or>
                      float_ge (pt_x kp) (float_of_int (width - 36)) \<or>
                      float_ge (pt_y kp) (float_of_int (height - 36)))) keypoints"
proof -
  have "keypoints_out (LATCH multithread hc u img width height stride keypoints d) =
        filter_keypoints width height keypoints"
    by (simp add: LATCH_def Let_def)
  then show ?thesis
    by (simp add: filter_keypoints_eq border_def float_of_int_36)
qed

theorem border_filter_exact_witness:
  "keypoints_out (LATCH False 4 exact_fpu dark 100 100 100
      [upright 36 50, upright 37 50, upright 64 50, upright 63 50, upright 50 36, upright 50 37,
       upright 50 64, upright 50 63] (filled 0)) =
   [upright 37 50, upright 63 50, upright 50 37, upright 50 63]"
  using border_filter_exact [of False 4 exact_fpu dark 100 100 100
      "[upright 36 50, upright 37 50, upright 64 50, upright 63 50, upright 50 36, upright 50 37,
       upright 50 64, upright 50 63]" "filled 0"]
  by (simp add: upright_def float_of_int_def round_sig24_exact)

text \<open>
  C4, on the input where it fails: 305 keypoints that pass the filter and a hardware
  concurrency of 19. The single-threaded path fills the 305 slots and leaves the rest of
  the memory alone; the multithreaded path reads \<^verbatim>\<open>keypoints[305]\<close>, past the end of the
  vector.
\<close>

theorem multithread_differs_at_305_19:
  "descriptors_out
     (LATCH True 19 exact_fpu dark 1000 1000 1000 (replicate 305 (upright 100 100)) (filled 255)) =
     Inl OutOfRange \<and>
   descriptors_out
     (LATCH False 19 exact_fpu dark 1000 1000 1000 (replicate 305 (upright 100 100)) (filled 255)) =
     Inr (\<lambda>k. if k < 19520 then 0 else 255)"
proof -
  let ?kps = "replicate 305 (upright 100 100)"
  have "run_launches exact_fpu dark 1000 ?kps (async_launches 0 0 18 17 305) (filled 255) =
      Inl OutOfRange"
    by (rule run_launches_overrun [of 289 17]) (simp_all add: launches_305_19)
  then have mt: "descriptors_out (LATCH True 19 exact_fpu dark 1000 1000 1000 ?kps (filled 255)) =
      Inl OutOfRange"
    by (simp add: LATCH_def Let_def filter_keypoints_replicate upright_inside)
  have "LATCH_worker exact_fpu 0 305 dark 1000 ?kps (filled 255) =
      Inr (\<lambda>k. if 0 \<le> int (k div 64) \<and> int (k div 64) < 0 + 305
                then descriptor_byte exact_fpu dark 1000 (?kps ! (k div 64)) (k mod 64)
                else filled 255 k)"
    by (rule LATCH_worker_in_range) simp_all
  moreover have slot: "(k div 64 < 305) = (k < 19520)" for k :: nat
    by arith
  moreover have "descriptor_byte exact_fpu dark 1000 pt f = 0" for pt f
    by (rule descriptor_byte_constant [of dark 0]) (simp add: dark_def)
  ultimately have st: "descriptors_out (LATCH False 19 exact_fpu dark 1000 1000 1000 ?kps (filled 255)) =
      Inr (\<lambda>k. if k < 19520 then 0 else 255)"
    by (simp add: LATCH_sequential filter_keypoints_replicate upright_inside filled_def slot
        cong: if_cong)
  from mt st show ?thesis by simp
qed

text \<open>
  C5, on the input where it fails: with 305 filtered keypoints and a hardware concurrency of
  19 the chunk size is 17 and eighteen chunks of 17 are launched before the last one, so
  the eighteenth covers the indices 289 to 305 and the last launch gets the length \<open>-1\<close>.
  Index 305 is processed and is not an index of the vector.
\<close>

theorem partition_overruns_at_305_19:
  "length (keypoints_out
     (LATCH True 19 exact_fpu dark 1000 1000 1000 (replicate 305 (upright 100 100)) (filled 0))) = 305 \<and>
   launched
     (LATCH True 19 exact_fpu dark 1000 1000 1000 (replicate 305 (upright 100 100)) (filled 0)) =
     [(0, 17), (17, 17), (34, 17), (51, 17), (68, 17), (85, 17), (102, 17), (119, 17),
      (136, 17), (153, 17), (170, 17), (187, 17), (204, 17), (221, 17), (238, 17), (255, 17),
      (272, 17), (289, 17), (306, - 1)]"
  by (simp add: LATCH_def Let_def filter_keypoints_replicate upright_inside launches_305_19)

text \<open>
  C6. For every keypoint, every triplet \<open>t\<close> and each of its three points \<open>k\<close>, with the
  offsets \<open>ox = triplets[6 t + k]\<close> and \<open>oy = triplets[6 t + 3 + k]\<close>: the offsets are scaled
  by \<open>s = scale / 7\<close>, rotated (\<open>rx = ox s cos - oy s sin\<close>, \<open>ry = ox s sin + oy s cos\<close>),
  clamped one by one to \<open>[-32, 32]\<close> (a NaN becomes \<open>-32\<close>), added to the keypoint's \<open>x\<close> and
  \<open>y\<close>, and converted to integers by rounding to the nearest, ties to even. \<open>s\<close>, \<open>cos\<close> and
  \<open>sin\<close> depend on the keypoint alone. Every arithmetic operation is the single-precision
  one of the parameter \<open>u\<close>.
\<close>

theorem sample_centre_pipeline:
  fixes u :: fpu and pt :: KeyPoint and t k :: nat
  defines "s \<equiv> fp_div u (pt_scale pt) (Fin 7)"
    and "c \<equiv> fp_cos u (pt_angle pt)"
    and "sn \<equiv> fp_sin u (pt_angle pt)"
    and "ox \<equiv> triplets ! (6 * t + k)"
    and "oy \<equiv> triplets ! (6 * t + 3 + k)"
  defines "rx \<equiv> fp_sub u (fp_mul u (fp_mul u ox s) c) (fp_mul u (fp_mul u oy s) sn)"
    and "ry \<equiv> fp_add u (fp_mul u (fp_mul u ox s) sn) (fp_mul u (fp_mul u oy s) c)"
  assumes "k < 3"
  shows "centre u pt t k =
           (sint (cvtps (fp_add u (minps (maxps rx (Fin (- 32))) (Fin 32)) (pt_x pt))),
            sint (cvtps (fp_add u (minps (maxps ry (Fin (- 32))) (Fin 32)) (pt_y pt)))) \<and>
         (\<exists>r. minps (maxps rx (Fin (- 32))) (Fin 32) = Fin r \<and> - 32 \<le> r \<and> r \<le> 32) \<and>
         (\<exists>r. minps (maxps ry (Fin (- 32))) (Fin 32) = Fin r \<and> - 32 \<le> r \<and> r \<le> 32) \<and>
         (\<forall>z. - (2 ^ 31) \<le> round_half_even z \<and> round_half_even z < 2 ^ 31 \<longrightarrow>
              sint (cvtps (Fin z)) = round_half_even z \<and>
              \<bar>z - of_int (round_half_even z)\<bar> \<le> 1 / 2 \<and>
              (\<bar>z - of_int (round_half_even z)\<bar> = 1 / 2 \<longrightarrow> even (round_half_even z)))"
proof -
  have "k = 0 \<or> k = 1 \<or> k = 2"
    using assms(8) by auto
  then have "centre u pt t k =
           (sint (cvtps (fp_add u (minps (maxps rx (Fin (- 32))) (Fin 32)) (pt_x pt))),
            sint (cvtps (fp_add u (minps (maxps ry (Fin (- 32))) (Fin 32)) (pt_y pt))))"
    unfolding s_def c_def sn_def ox_def oy_def rx_def ry_def
    by (auto simp: centre_def sample_xints_def sample_yints_def keypoint_regs_def Let_def
        mm_set_ps1_def mm_loadu_ps_def mm_mul_ps_def mm_div_ps_def mm_add_ps_def mm_sub_ps_def
        mm_min_ps_def mm_max_ps_def mm_cvtps_epi32_def lanes_ps_def mm_extract_epi32_def
        ac_simps)
  moreover have "\<forall>z. - (2 ^ 31) \<le> round_half_even z \<and> round_half_even z < 2 ^ 31 \<longrightarrow>
              sint (cvtps (Fin z)) = round_half_even z \<and>
              \<bar>z - of_int (round_half_even z)\<bar> \<le> 1 / 2 \<and>
              (\<bar>z - of_int (round_half_even z)\<bar> = 1 / 2 \<longrightarrow> even (round_half_even z))"
    using sint_cvtps round_half_even_nearest by blast
  ultimately show ?thesis
    using clamp_range by simp
qed

theorem sample_centre_pipeline_witness:
  "centre exact_fpu low_keypoint 3 2 =
     (sint (cvtps (Fin 18)), sint (cvtps (Fin (383 / 4)))) \<and>
   minps (maxps (Fin 42) (Fin (- 32))) (Fin 32) = Fin 32 \<and>
   sint (cvtps (Fin (383 / 4))) = 96 \<and>
   sint (cvtps (Fin (191 / 2))) = 96 \<and> sint (cvtps (Fin (189 / 2))) = 94"
  using sample_centre_pipeline [of 2 exact_fpu low_keypoint 3]
  by (simp add: centres_low_3 cvtps_def minps_def maxps_def round_half_even_values)

text \<open>
  C7, on an input where it fails: an image of 100 by 100 pixels, all of value 7, in a
  memory that holds 0 after the buffer, and the keypoint \<open>(50, 63.75)\<close> with scale 14 and
  angle 0. The keypoint passes the filter (\<open>63.75 < 100 - 36\<close>). Point C of triplet 3 has
  the offset \<open>(-22, 21)\<close>, scaled to \<open>(-44, 42)\<close> and clamped to \<open>(-32, 32)\<close>; its centre is
  \<open>(18, 95.75)\<close>, rounded to \<open>(18, 96)\<close>, and its window covers the rows 93 to 100. Row 100
  is not a row of the image, the sum is \<open>-392\<close> and bit 3 of byte 0 of the descriptor is set.
\<close>

theorem uniform_image_edge_keypoint:
  "keypoints_out (LATCH False 4 exact_fpu (flat_image 100 100 7 0) 100 100 100 [low_keypoint]
      (filled 0)) = [low_keypoint] \<and>
   centre exact_fpu low_keypoint 3 2 = (18, 96) \<and>
   sint (evaluator exact_fpu (flat_image 100 100 7 0) 100 low_keypoint 3) = - 392 \<and>
   (case descriptors_out (LATCH False 4 exact_fpu (flat_image 100 100 7 0) 100 100 100
            [low_keypoint] (filled 0)) of
      Inr d' \<Rightarrow> bit (d' 0) 3
    | Inl e \<Rightarrow> False)"
proof -
  have kept: "keypoints_out (LATCH False 4 exact_fpu (flat_image 100 100 7 0) 100 100 100
      [low_keypoint] (filled 0)) = [low_keypoint]"
    by (simp add: LATCH_def Let_def low_keypoint_kept)
  have sum: "sint (evaluator exact_fpu (flat_image 100 100 7 0) 100 low_keypoint 3) = - 392"
    unfolding evaluator_sint One_nat_def centres_low_3 window_sum_low_3 ..
  have "LATCH_worker exact_fpu 0 1 (flat_image 100 100 7 0) 100 [low_keypoint] (filled 0) =
     Inr (\<lambda>k. if 0 \<le> int (k div 64) \<and> int (k div 64) < 0 + 1
              then descriptor_byte exact_fpu (flat_image 100 100 7 0) 100
                     ([low_keypoint] ! (k div 64)) (k mod 64)
              else filled 0 k)"
    by (rule LATCH_worker_in_range) simp_all
  moreover have "bit (descriptor_byte exact_fpu (flat_image 100 100 7 0) 100 low_keypoint 0) 3"
    using descriptor_byte_bit [of 3 exact_fpu "flat_image 100 100 7 0" 100 low_keypoint 0] sum
    by simp
  ultimately have "case descriptors_out (LATCH False 4 exact_fpu (flat_image 100 100 7 0) 100 100
            100 [low_keypoint] (filled 0)) of
      Inr d' \<Rightarrow> bit (d' 0) 3
    | Inl e \<Rightarrow> False"
    by (simp add: LATCH_sequential low_keypoint_kept)
  with kept sum show ?thesis
    by (simp add: centres_low_3)
qed

text \<open>
  C8. With \<open>w = min (filteredCount div 16) hardware_concurrency\<close>: if \<open>w \<le> 1\<close> the
  multithreaded entry point runs the worker once over the whole filtered range and launches
  nothing; if \<open>w > 1\<close> it launches \<open>w\<close> workers; and if no keypoint is left after the filter
  it launches nothing and returns the descriptor memory unchanged.
\<close>

theorem dispatcher_fallback:
  assumes "kps = filter_keypoints width height keypoints"
    and "w = min (int (length kps) div 16) (sint hc)"
  shows "(w \<le> 1 \<longrightarrow>
            LATCH True hc u img width height stride keypoints d =
              \<lparr> keypoints_out = kps,
                descriptors_out = LATCH_worker u 0 (int (length kps)) img stride kps d,
                launched = [] \<rparr>) \<and>
         (1 < w \<longrightarrow>
            length (launched (LATCH True hc u img width height stride keypoints d)) = nat w) \<and>
         (kps = [] \<longrightarrow>
            LATCH True hc u img width height stride keypoints d =
              \<lparr> keypoints_out = [], descriptors_out = Inr d, launched = [] \<rparr>)"
proof (intro conjI impI)
  assume "w \<le> 1"
  then show "LATCH True hc u img width height stride keypoints d =
              \<lparr> keypoints_out = kps,
                descriptors_out = LATCH_worker u 0 (int (length kps)) img stride kps d,
                launched = [] \<rparr>"
    using assms by (auto simp: LATCH_def Let_def)
next
  assume w: "1 < w"
  let ?sz = "int (length kps)"
  have "w \<le> ?sz div 16"
    using assms(2) by simp
  then have "w \<le> ?sz"
    by linarith
  then have bound: "min (?sz - 1) (w - 1) = w - 1"
    by simp
  have "length (async_launches 0 0 (w - 1) ((?sz - 1) div w + 1) ?sz) = nat (w - 1 - 0) + 1"
    using w by (intro async_launches_length) simp
  then have "length (async_launches 0 0 (w - 1) ((?sz - 1) div w + 1) ?sz) = nat w"
    using w by simp
  then show "length (launched (LATCH True hc u img width height stride keypoints d)) = nat w"
    using w assms bound by (auto simp: LATCH_def Let_def)
next
  assume "kps = []"
  then show "LATCH True hc u img width height stride keypoints d =
              \<lparr> keypoints_out = [], descriptors_out = Inr d, launched = [] \<rparr>"
    using assms(1) by (simp add: LATCH_nothing_left)
qed

theorem dispatcher_fallback_witness:
  "LATCH True 8 exact_fpu dark 1000 1000 1000 (replicate 20 (upright 100 100)) (filled 0) =
     \<lparr> keypoints_out = replicate 20 (upright 100 100),
       descriptors_out =
         LATCH_worker exact_fpu 0 20 dark 1000 (replicate 20 (upright 100 100)) (filled 0),
       launched = [] \<rparr> \<and>
   length (launched
     (LATCH True 8 exact_fpu dark 1000 1000 1000 (replicate 40 (upright 100 100)) (filled 0))) = 2 \<and>
   LATCH True 8 exact_fpu dark 1000 1000 1000 [] (filled 0) =
     \<lparr> keypoints_out = [], descriptors_out = Inr (filled 0), launched = [] \<rparr>"
proof -
  have a: "replicate n (upright 100 100) =
      filter_keypoints 1000 1000 (replicate n (upright 100 100))" for n
    by (simp add: filter_keypoints_replicate upright_inside)
  have e: "[] = filter_keypoints 1000 1000 []"
    by (simp add: filter_keypoints_eq)
  show ?thesis
    using dispatcher_fallback [OF a [of 20], of 1 8 exact_fpu dark 1000 "filled 0"]
      dispatcher_fallback [OF a [of 40], of 2 8 exact_fpu dark 1000 "filled 0"]
      dispatcher_fallback [OF e, of 0 8 exact_fpu dark 1000 "filled 0"]
    by (simp add: LATCH_worker_empty)
qed

text \<open>
  C9, on an input where it fails: the call of C4 and C5, with 305 keypoints that pass the
  filter and a hardware concurrency of 19. The eighteenth launch is \<^verbatim>\<open>_LATCH(289, 17, ...)\<close>.
  Its loop runs up to \<open>i = 305\<close>, where it reads \<^verbatim>\<open>keypoints[305]\<close> past the end of the
  vector and goes on to descriptor slot 305, the bytes from \<open>64 * 305 = 19520\<close> on, which are
  not to be touched. The same worker with one keypoint less stays in its slots 289 to 304,
  the bytes 18496 to 19519, and leaves the other bytes as they were: a worker whose range
  lies in the vector writes only the slots of its range, with values that do not depend on
  what the memory held before (\<open>worker_frame_in_range\<close>).
\<close>

theorem launched_worker_leaves_vector:
  "keypoints_out
     (LATCH True 19 exact_fpu dark 1000 1000 1000 (replicate 305 (upright 100 100)) (filled 255)) =
     replicate 305 (upright 100 100) \<and>
   launched
     (LATCH True 19 exact_fpu dark 1000 1000 1000 (replicate 305 (upright 100 100)) (filled 255)) !
     17 = (289, 17) \<and>
   LATCH_worker exact_fpu 289 17 dark 1000 (replicate 305 (upright 100 100)) (filled 255) =
     Inl OutOfRange \<and>
   LATCH_worker exact_fpu 289 16 dark 1000 (replicate 305 (upright 100 100)) (filled 255) =
     Inr (\<lambda>k. if 18496 \<le> k \<and> k < 19520 then 0 else 255)"
proof -
  let ?kps = "replicate 305 (upright 100 100)"
  have "LATCH_worker exact_fpu 289 17 dark 1000 ?kps (filled 255) = Inl OutOfRange"
    by (rule LATCH_worker_overrun) simp_all
  then show ?thesis
    by (simp add: LATCH_def Let_def filter_keypoints_replicate upright_inside launches_305_19
        worker_289_16)
qed

text \<open>
  C10, as amended. If \<open>width \<le> 72\<close> and no keypoint has a NaN as \<open>x\<close>, or \<open>height \<le> 72\<close> and
  no keypoint has a NaN as \<open>y\<close>, then \<^verbatim>\<open>LATCH\<close> removes every keypoint, launches nothing and
  leaves the descriptor memory as it was. A keypoint whose coordinates are NaN fails all
  four comparisons of the filter and stays, in an image of any size.
\<close>

theorem small_image_removes_all:
  assumes "width \<le> 72 \<and> (\<forall>kp \<in> set keypoints. pt_x kp \<noteq> NaN) \<or>
           height \<le> 72 \<and> (\<forall>kp \<in> set keypoints. pt_y kp \<noteq> NaN)"
  shows "LATCH multithread hc u img width height stride keypoints d =
         \<lparr> keypoints_out = [], descriptors_out = Inr d, launched = [] \<rparr>"
proof -
  have "\<forall>kp \<in> set keypoints. border width height kp"
    using assms border_narrow border_low by blast
  then have "filter_keypoints width height keypoints = []"
    by (simp add: filter_keypoints_eq)
  then show ?thesis
    by (rule LATCH_nothing_left)
qed

theorem small_image_removes_all_witness:
  "LATCH True 4 exact_fpu dark 72 500 72 [upright 40 250, upright 20 250] (filled 0) =
     \<lparr> keypoints_out = [], descriptors_out = Inr (filled 0), launched = [] \<rparr>"
  using small_image_removes_all [of 72 "[upright 40 250, upright 20 250]" 500 True 4 exact_fpu dark
      72 "filled 0"]
  by (simp add: upright_def)

theorem nan_keypoint_survives:
  "keypoints_out (LATCH False 4 exact_fpu dark 72 72 72
      [\<lparr> pt_x = NaN, pt_y = NaN, pt_scale = Fin 7, pt_angle = Fin 0 \<rparr>] (filled 0)) =
   [\<lparr> pt_x = NaN, pt_y = NaN, pt_scale = Fin 7, pt_angle = Fin 0 \<rparr>]"
  by (simp add: LATCH_def Let_def filter_keypoints_eq border_def)

end
